theory Spec2Isabelle
  imports Main
begin

section \<open>Host values\<close>

text \<open>
  The interpreter of lesson 7 (and its predecessor of lesson 5) works on plain JavaScript
  values. A program is a nested array of numbers and strings; the evaluator classifies it
  by coercions of the host language (\<open>isNaN\<close>, a regular expression test, loose
  equality \<open>==\<close>), so the model carries these coercions explicitly.

  \<open>Number n\<close> stands for the double with the integer value \<open>n\<close> (the parser's
  \<open>Number(token)\<close> in the safe integer range); \<open>NaN\<close> is the one other number
  the classification tells apart. Fractions and infinities are not represented: no
  function of the evaluator inspects them.
\<close>

datatype expr =
    Undefined
  | Null
  | Bool bool
  | Number int
  | NaN
  | Str string
  | Arr "expr list"

text \<open>
  An environment is a host object whose prototype chain is the scope chain. The prototype
  link of an object never changes after \<open>Object.create\<close>, so a reference to an
  environment is represented by the list of the addresses on its chain, innermost frame
  first; the bindings themselves live in the store and are shared by every reference.
  The empty list is the \<open>null\<close>/\<open>undefined\<close> reference.
\<close>

type_synonym environment = "nat list"

text \<open>
  Runtime values: data (any expression may be returned as is), the array
  \<open>["function", parameters, body]\<close> that \<open>makeFunction\<close> tags with its
  \<open>environment\<close> property, and host functions, identified by name.
\<close>

datatype val =
    Data expr
  | Closure expr expr environment
  | Native string

text \<open>
  What the code throws: the \<open>ReferenceError\<close> of an unbound name, the string
  \<open>"Count of variables and valules of bindings is not the same"\<close> (\<open>ArityMismatch\<close>),
  the string \<open>"else clause isn't last in the cond: ..."\<close> (\<open>MisplacedElse\<close>), and
  the host's own \<open>TypeError\<close>.
\<close>

datatype error =
    ReferenceError
  | ArityMismatch
  | MisplacedElse
  | TypeError

subsection \<open>ToString\<close>

text \<open>An integer-valued number prints in decimal notation (below \<open>10^21\<close>, which covers
  the safe integers); an array prints as its elements joined by commas, \<open>null\<close> and
  \<open>undefined\<close> as the empty string.\<close>

fun digitsOf :: "nat \<Rightarrow> string" where
  "digitsOf n =
     (if n < 10 then [''0123456789'' ! n]
      else digitsOf (n div 10) @ [''0123456789'' ! (n mod 10)])"

declare digitsOf.simps [simp del]

definition numberToString :: "int \<Rightarrow> string" where
  "numberToString i = (if i < 0 then CHR ''-'' # digitsOf (nat (- i)) else digitsOf (nat i))"

fun join :: "string list \<Rightarrow> string" where
  "join [] = []"
| "join [x] = x"
| "join (x # y # ys) = x @ CHR '','' # join (y # ys)"

fun toString :: "expr \<Rightarrow> string" where
  "toString Undefined = ''undefined''"
| "toString Null = ''null''"
| "toString (Bool b) = (if b then ''true'' else ''false'')"
| "toString (Number i) = numberToString i"
| "toString NaN = ''NaN''"
| "toString (Str s) = s"
| "toString (Arr xs) =
     join (map (\<lambda>x. if x = Undefined \<or> x = Null then [] else toString x) xs)"

subsection \<open>ToNumber on strings: which strings are numeric literals\<close>

text \<open>
  \<open>isNaN(x)\<close> converts \<open>x\<close> to a number first. A string converts to a number other
  than \<open>NaN\<close> exactly when, trimmed of white space, it is empty or a
  \<open>StringNumericLiteral\<close> of ECMAScript 2015: a signed decimal literal with optional
  fraction and exponent, \<open>Infinity\<close>, or an unsigned hexadecimal, octal or binary integer
  (an engine of ECMAScript 5 reads the hexadecimal form only). Characters are the bytes
  of ASCII.
\<close>

definition isDecimalDigit :: "char \<Rightarrow> bool" where
  "isDecimalDigit c = (c \<in> set ''0123456789'')"

definition isStrWhiteSpace :: "char \<Rightarrow> bool" where
  "isStrWhiteSpace c = (c \<in> set [CHR 0x09, CHR 0x0A, CHR 0x0B, CHR 0x0C, CHR 0x0D, CHR '' ''])"

definition strTrim :: "string \<Rightarrow> string" where
  "strTrim s = rev (dropWhile isStrWhiteSpace (rev (dropWhile isStrWhiteSpace s)))"

definition isDecimalDigits :: "string \<Rightarrow> bool" where
  "isDecimalDigits s = (s \<noteq> [] \<and> list_all isDecimalDigit s)"

definition dropSign :: "string \<Rightarrow> string" where
  "dropSign s = (case s of [] \<Rightarrow> [] | c # t \<Rightarrow> if c = CHR ''+'' \<or> c = CHR ''-'' then t else s)"

definition isExponentPartOpt :: "string \<Rightarrow> bool" where
  "isExponentPartOpt s =
     (case s of [] \<Rightarrow> True
      | c # t \<Rightarrow> (c = CHR ''e'' \<or> c = CHR ''E'') \<and> isDecimalDigits (dropSign t))"

definition isStrUnsignedDecimalLiteral :: "string \<Rightarrow> bool" where
  "isStrUnsignedDecimalLiteral s =
     (s = ''Infinity'' \<or>
      (let d = takeWhile isDecimalDigit s; r = dropWhile isDecimalDigit s
       in case r of
            [] \<Rightarrow> d \<noteq> []
          | c # r2 \<Rightarrow>
              if c = CHR ''.''
              then (d \<noteq> [] \<or> takeWhile isDecimalDigit r2 \<noteq> [])
                   \<and> isExponentPartOpt (dropWhile isDecimalDigit r2)
              else d \<noteq> [] \<and> isExponentPartOpt r))"

definition isNonDecimalIntegerLiteral :: "string \<Rightarrow> bool" where
  "isNonDecimalIntegerLiteral s =
     (case s of
        c0 # c1 # t \<Rightarrow>
          c0 = CHR ''0'' \<and> t \<noteq> [] \<and>
          (if c1 = CHR ''x'' \<or> c1 = CHR ''X'' then list_all (\<lambda>c. c \<in> set ''0123456789abcdefABCDEF'') t
           else if c1 = CHR ''o'' \<or> c1 = CHR ''O'' then list_all (\<lambda>c. c \<in> set ''01234567'') t
           else if c1 = CHR ''b'' \<or> c1 = CHR ''B'' then list_all (\<lambda>c. c \<in> set ''01'') t
           else False)
      | _ \<Rightarrow> False)"

definition isStringNumericLiteral :: "string \<Rightarrow> bool" where
  "isStringNumericLiteral s =
     (let t = strTrim s
      in t = [] \<or> isStrUnsignedDecimalLiteral (dropSign t) \<or> isNonDecimalIntegerLiteral t)"

definition isNaN :: "expr \<Rightarrow> bool" where
  "isNaN e =
     (case e of
        Undefined \<Rightarrow> True
      | Null \<Rightarrow> False
      | Bool b \<Rightarrow> False
      | Number i \<Rightarrow> False
      | NaN \<Rightarrow> True
      | Str s \<Rightarrow> \<not> isStringNumericLiteral s
      | Arr xs \<Rightarrow> \<not> isStringNumericLiteral (toString e))"

subsection \<open>Property access, \<open>slice\<close>, \<open>length\<close>, loose equality, truthiness\<close>

text \<open>\<open>e[i]\<close>: reading an index of \<open>null\<close> or \<open>undefined\<close> throws; a string yields
  its \<open>i\<close>-th character; a missing index yields \<open>undefined\<close>.\<close>

definition jsIndex :: "expr \<Rightarrow> nat \<Rightarrow> error + expr" where
  "jsIndex e i =
     (case e of
        Undefined \<Rightarrow> Inl TypeError
      | Null \<Rightarrow> Inl TypeError
      | Arr xs \<Rightarrow> Inr (if i < length xs then xs ! i else Undefined)
      | Str s \<Rightarrow> Inr (if i < length s then Str [s ! i] else Undefined)
      | _ \<Rightarrow> Inr Undefined)"

text \<open>\<open>e.slice(i)\<close> exists on arrays and strings only.\<close>

definition jsSlice :: "expr \<Rightarrow> nat \<Rightarrow> error + expr" where
  "jsSlice e i =
     (case e of
        Arr xs \<Rightarrow> Inr (Arr (drop i xs))
      | Str s \<Rightarrow> Inr (Str (drop i s))
      | _ \<Rightarrow> Inl TypeError)"

definition jsLength :: "expr \<Rightarrow> error + expr" where
  "jsLength e =
     (case e of
        Undefined \<Rightarrow> Inl TypeError
      | Null \<Rightarrow> Inl TypeError
      | Arr xs \<Rightarrow> Inr (Number (int (length xs)))
      | Str s \<Rightarrow> Inr (Number (int (length s)))
      | _ \<Rightarrow> Inr Undefined)"

text \<open>
  \<open>e == tag\<close> for the tags the source compares with (\<open>define\<close>, \<open>set!\<close>,
  \<open>lambda\<close>, \<open>begin\<close>, \<open>if\<close>, \<open>cond\<close>, \<open>function\<close>, \<open>else\<close>). None of
  them is a numeric literal, so a number or a boolean never equals one; an array is
  compared through its string conversion.
\<close>

definition looseEq :: "expr \<Rightarrow> string \<Rightarrow> bool" where
  "looseEq e tag =
     (case e of
        Str s \<Rightarrow> s = tag
      | Arr xs \<Rightarrow> toString e = tag
      | _ \<Rightarrow> False)"

definition truthyExpr :: "expr \<Rightarrow> bool" where
  "truthyExpr e =
     (case e of
        Undefined \<Rightarrow> False
      | Null \<Rightarrow> False
      | Bool b \<Rightarrow> b
      | Number i \<Rightarrow> i \<noteq> 0
      | NaN \<Rightarrow> False
      | Str s \<Rightarrow> s \<noteq> []
      | Arr xs \<Rightarrow> True)"

definition truthy :: "val \<Rightarrow> bool" where
  "truthy v = (case v of Data e \<Rightarrow> truthyExpr e | _ \<Rightarrow> True)"

section \<open>Predicates and getters of lesson 7\<close>

definition isSelfEvaluating :: "expr \<Rightarrow> bool" where
  "isSelfEvaluating expression =
     (\<not> isNaN expression \<or>
      (case expression of Str s \<Rightarrow> s \<noteq> [] \<and> hd s = CHR 0x27 | _ \<Rightarrow> False))"

text \<open>The character class of \<open>/^([a-z-A-Z0-9_$+*/\-?!=><])+$/\<close>.\<close>

definition isVariableChar :: "char \<Rightarrow> bool" where
  "isVariableChar c =
     (c \<in> set ''abcdefghijklmnopqrstuvwxyz-ABCDEFGHIJKLMNOPQRSTUVWXYZ0123456789_$+*/-?!=><'')"

definition isVariable :: "expr \<Rightarrow> bool" where
  "isVariable expression =
     (toString expression \<noteq> [] \<and> list_all isVariableChar (toString expression))"

definition isTaggedList :: "string \<Rightarrow> expr \<Rightarrow> error + bool" where
  "isTaggedList tag expresison =
     (case jsIndex expresison 0 of Inl x \<Rightarrow> Inl x | Inr t \<Rightarrow> Inr (looseEq t tag))"

definition isDefinition :: "expr \<Rightarrow> error + bool" where
  "isDefinition expression = isTaggedList ''define'' expression"

definition isAssignment :: "expr \<Rightarrow> error + bool" where
  "isAssignment expression = isTaggedList ''set!'' expression"

definition isLambda :: "expr \<Rightarrow> error + bool" where
  "isLambda expression = isTaggedList ''lambda'' expression"

definition isBlock :: "expr \<Rightarrow> error + bool" where
  "isBlock expression = isTaggedList ''begin'' expression"

definition isIf :: "expr \<Rightarrow> error + bool" where
  "isIf expression = isTaggedList ''if'' expression"

definition isCond :: "expr \<Rightarrow> error + bool" where
  "isCond expression = isTaggedList ''cond'' expression"

definition isApplication :: "expr \<Rightarrow> bool" where
  "isApplication exp = (case exp of Arr xs \<Rightarrow> True | _ \<Rightarrow> False)"

definition getIfPredicate :: "expr \<Rightarrow> error + expr" where
  "getIfPredicate ifExpression = jsIndex ifExpression 1"

definition getIfConsequent :: "expr \<Rightarrow> error + expr" where
  "getIfConsequent ifExpression = jsIndex ifExpression 2"

text \<open>\<open>ifExpression[3] || false\<close>: every falsy alternative is replaced by \<open>false\<close>.\<close>

definition getIfAlternative :: "expr \<Rightarrow> error + expr" where
  "getIfAlternative ifExpression =
     (case jsIndex ifExpression 3 of
        Inl x \<Rightarrow> Inl x
      | Inr a \<Rightarrow> Inr (if truthyExpr a then a else Bool False))"

subsection \<open>Cond transformation\<close>

definition makeIf :: "expr \<Rightarrow> expr \<Rightarrow> expr \<Rightarrow> expr" where
  "makeIf predicate consequent alternative = Arr [Str ''if'', predicate, consequent, alternative]"

text \<open>\<open>return ["begin", expresisons]\<close>: the array of expressions is the single element
  after the tag.\<close>

definition makeBegin :: "expr \<Rightarrow> expr" where
  "makeBegin expresisons = Arr [Str ''begin'', expresisons]"

definition sequenceExpression :: "expr \<Rightarrow> error + expr" where
  "sequenceExpression expressions =
     (case jsLength expressions of
        Inl x \<Rightarrow> Inl x
      | Inr n \<Rightarrow>
          if n = Number 0 then Inr Null
          else if n = Number 1 then jsIndex expressions 0
          else Inr (makeBegin expressions))"

definition getCondPredicate :: "expr \<Rightarrow> error + expr" where
  "getCondPredicate condClause = jsIndex condClause 0"

definition getCondActions :: "expr \<Rightarrow> error + expr" where
  "getCondActions condClause = jsSlice condClause 1"

definition isCondElseClause :: "expr \<Rightarrow> error + bool" where
  "isCondElseClause condClause =
     (case getCondPredicate condClause of Inl x \<Rightarrow> Inl x | Inr p \<Rightarrow> Inr (looseEq p ''else''))"

fun expandCondClauses :: "expr list \<Rightarrow> error + expr" where
  "expandCondClauses [] = Inr (Bool False)"
| "expandCondClauses (first # rest) =
     (case isCondElseClause first of
        Inl x \<Rightarrow> Inl x
      | Inr True \<Rightarrow>
          if rest \<noteq> [] then Inl MisplacedElse
          else (case getCondActions first of
                  Inl x \<Rightarrow> Inl x
                | Inr actions \<Rightarrow> sequenceExpression actions)
      | Inr False \<Rightarrow>
          (case getCondPredicate first of
             Inl x \<Rightarrow> Inl x
           | Inr predicate \<Rightarrow>
          (case getCondActions first of
             Inl x \<Rightarrow> Inl x
           | Inr actions \<Rightarrow>
          (case sequenceExpression actions of
             Inl x \<Rightarrow> Inl x
           | Inr consequent \<Rightarrow>
          (case expandCondClauses rest of
             Inl x \<Rightarrow> Inl x
           | Inr alternative \<Rightarrow> Inr (makeIf predicate consequent alternative))))))"

definition getCondClauses :: "expr \<Rightarrow> error + expr" where
  "getCondClauses condExpression = jsSlice condExpression 1"

text \<open>\<open>expandCondClauses\<close> reads its argument by \<open>length\<close>, \<open>[0]\<close> and
  \<open>slice(1)\<close>; a string offers the three and is read as the array of its characters.\<close>

definition condToIf :: "expr \<Rightarrow> error + expr" where
  "condToIf condExpression =
     (case getCondClauses condExpression of
        Inl x \<Rightarrow> Inl x
      | Inr (Arr clauses) \<Rightarrow> expandCondClauses clauses
      | Inr (Str s) \<Rightarrow> expandCondClauses (map (\<lambda>c. Str [c]) s)
      | Inr _ \<Rightarrow> Inl TypeError)"

section \<open>Store, outcomes and host functions\<close>

text \<open>
  \<open>heap s a\<close> holds the own properties of the object at address \<open>a\<close>;
  \<open>nextObject\<close> is the next address \<open>Object.create\<close> hands out; \<open>console\<close>
  collects the argument lists of the calls of \<open>console.log\<close>.
\<close>

record state =
  heap :: "nat \<Rightarrow> (string \<rightharpoonup> val)"
  nextObject :: nat
  console :: "val list list"

text \<open>
  A call either returns, throws, or exceeds the depth of recursion it was given (the host's
  call stack; every nested call of \<open>evaluate\<close> takes one unit). \<open>Unmodelled\<close> is
  no result of the code: it stands where the host goes on in a way this store cannot
  express (the accessor \<open>__proto__\<close> handing out an environment as a value or
  replacing the prototype of an environment that others refer to, and a host function
  installed as \<open>Object.prototype.valueOf\<close>, which the host's conversions of arrays
  would call). Nothing is stated about the code from there on.
\<close>

datatype 'a outcome =
    Return 'a state
  | Throw error state
  | Exhausted
  | Unmodelled

definition lift :: "error + 'a \<Rightarrow> state \<Rightarrow> 'a outcome" where
  "lift r s = (case r of Inl x \<Rightarrow> Throw x s | Inr v \<Rightarrow> Return v s)"

text \<open>
  A host function is known by its name; what it returns for a \<open>this\<close> object and an
  argument list is a parameter of the evaluator. \<open>print\<close> is the one registered function
  with an effect: \<open>console.log.apply(console, arguments)\<close>, which returns \<open>undefined\<close>.
\<close>

type_synonym host = "string \<Rightarrow> environment \<Rightarrow> val list \<Rightarrow> error + val"

definition applyNative :: "host \<Rightarrow> string \<Rightarrow> environment \<Rightarrow> val list \<Rightarrow> state \<Rightarrow> val outcome" where
  "applyNative h name this args s =
     (if name = ''print'' then Return (Data Undefined) (s\<lparr>console := console s @ [args]\<rparr>)
      else lift (h name this args) s)"

text \<open>\<open>procedure.apply(null, args)\<close>.\<close>

definition applyBuiltInFunction :: "host \<Rightarrow> string \<Rightarrow> val list \<Rightarrow> state \<Rightarrow> val outcome" where
  "applyBuiltInFunction h procedure args s = applyNative h procedure [] args s"

section \<open>Working with environments\<close>

text \<open>
  \<open>heap\<close> holds data properties. The host's \<open>Object.prototype\<close> (address 0) has one
  property more, which every environment under it inherits: the accessor \<open>__proto__\<close>.
  Its getter returns the prototype of the object it is read on; its setter replaces the
  prototype of the object it is written on when the value is an object or \<open>null\<close>, and
  does nothing for any other value. No assignment can remove or replace the accessor.
\<close>

definition protoAccessor :: "nat \<Rightarrow> string \<Rightarrow> bool" where
  "protoAccessor a key = (a = 0 \<and> key = ''__proto__'')"

text \<open>Arrays (the tagged arrays of \<open>makeFunction\<close> among them) and functions are
  objects; functions are callable.\<close>

definition isObject :: "val \<Rightarrow> bool" where
  "isObject v = (case v of Data e \<Rightarrow> (case e of Arr xs \<Rightarrow> True | _ \<Rightarrow> False) | _ \<Rightarrow> True)"

definition isCallable :: "val \<Rightarrow> bool" where
  "isCallable v = (case v of Native name \<Rightarrow> True | _ \<Rightarrow> False)"

text \<open>\<open>key in environment\<close> walks the prototype chain; \<open>getProperty\<close> is the data
  property that \<open>environment[key]\<close> finds along it.\<close>

fun hasProperty :: "(nat \<Rightarrow> (string \<rightharpoonup> val)) \<Rightarrow> string \<Rightarrow> environment \<Rightarrow> bool" where
  "hasProperty hp key [] = False"
| "hasProperty hp key (a # as) =
     (hp a key \<noteq> None \<or> protoAccessor a key \<or> hasProperty hp key as)"

fun getProperty :: "(nat \<Rightarrow> (string \<rightharpoonup> val)) \<Rightarrow> string \<Rightarrow> environment \<Rightarrow> val option" where
  "getProperty hp key [] = None"
| "getProperty hp key (a # as) =
     (case hp a key of Some v \<Rightarrow> Some v | None \<Rightarrow> getProperty hp key as)"

text \<open>The property that \<open>key\<close> resolves to along the chain is the accessor: no data
  property of that name, and \<open>Object.prototype\<close> is on the chain.\<close>

definition reachesAccessor :: "(nat \<Rightarrow> (string \<rightharpoonup> val)) \<Rightarrow> string \<Rightarrow> environment \<Rightarrow> bool" where
  "reachesAccessor hp key environment =
     (getProperty hp key environment = None \<and> list_ex (\<lambda>a. protoAccessor a key) environment)"

text \<open>
  \<open>environment[variable] = value\<close>. Where the name resolves to a data property or to
  nothing, the assignment creates or overwrites an own property of \<open>environment\<close>.
  Where it resolves to the accessor, the setter runs and no own property is made: a value
  that is neither an object nor \<open>null\<close> changes nothing; on \<open>Object.prototype\<close>
  itself, whose prototype is \<open>null\<close> and cannot be changed, \<open>null\<close> changes nothing and
  an object throws; on any other environment, which closures and frames may share, the
  prototype would be replaced.
\<close>

definition putProperty :: "expr \<Rightarrow> val \<Rightarrow> environment \<Rightarrow> state \<Rightarrow> val outcome" where
  "putProperty variable value environment s =
     (case environment of
        [] \<Rightarrow> Throw TypeError s
      | a # as \<Rightarrow>
          if reachesAccessor (heap s) (toString variable) environment then
            (if value \<noteq> Data Null \<and> \<not> isObject value then Return value s
             else if a = 0 then (if value = Data Null then Return value s else Throw TypeError s)
             else Unmodelled)
          else if a = 0 \<and> toString variable = ''valueOf'' \<and> isCallable value then Unmodelled
          else Return value (s\<lparr>heap := (heap s)(a := (heap s a)(toString variable \<mapsto> value))\<rparr>))"

text \<open>The global environment is \<open>{}\<close>: an object at address 1 whose prototype is the
  host's \<open>Object.prototype\<close>, at address 0.\<close>

definition TheGlobalEnvironment :: environment where
  "TheGlobalEnvironment = [1, 0]"

text \<open>
  \<open>environment[variables[index]] = values[index]\<close> on the frame under construction,
  given as its own properties so far and its prototype chain. No one else refers to the
  frame yet, so the setter of \<open>__proto__\<close> is followed here for \<open>null\<close>: the frame loses
  its parent. An array or a function as the new prototype brings in the members of the
  host's \<open>Array.prototype\<close> or \<open>Function.prototype\<close>.
\<close>

definition bindParameters ::
  "(nat \<Rightarrow> (string \<rightharpoonup> val)) \<Rightarrow> expr \<Rightarrow> val list \<Rightarrow> nat \<Rightarrow>
   (string \<rightharpoonup> val) \<times> environment \<Rightarrow> ((string \<rightharpoonup> val) \<times> environment) option" where
  "bindParameters hp variables values index building =
     (case jsIndex variables index of
        Inl x \<Rightarrow> Some building
      | Inr name \<Rightarrow>
          (case building of
             (frame, parent) \<Rightarrow>
               if frame (toString name) = None \<and> reachesAccessor hp (toString name) parent
               then (if values ! index = Data Null then Some (frame, [])
                     else if isObject (values ! index) then None
                     else Some (frame, parent))
               else Some (frame(toString name \<mapsto> values ! index), parent)))"

text \<open>\<open>for (var index = variables.length; index--;)\<close>: from the last index down to 0.\<close>

fun bindAll ::
  "(nat \<Rightarrow> (string \<rightharpoonup> val)) \<Rightarrow> expr \<Rightarrow> val list \<Rightarrow> nat \<Rightarrow>
   (string \<rightharpoonup> val) \<times> environment \<Rightarrow> ((string \<rightharpoonup> val) \<times> environment) option" where
  "bindAll hp variables values 0 building = Some building"
| "bindAll hp variables values (Suc index) building =
     (case bindParameters hp variables values index building of
        None \<Rightarrow> None
      | Some next \<Rightarrow> bindAll hp variables values index next)"

text \<open>The parent is \<open>None\<close> where the source passes \<open>undefined\<close> (an array tagged
  \<open>function\<close> that \<open>makeFunction\<close> did not build has no \<open>environment\<close>
  property): \<open>Object.create(undefined)\<close> throws.\<close>

definition extendEnvironment ::
  "expr \<Rightarrow> val list \<Rightarrow> environment option \<Rightarrow> state \<Rightarrow> environment outcome" where
  "extendEnvironment variables values parentEnvironment s =
     (case jsLength variables of
        Inl x \<Rightarrow> Throw x s
      | Inr n \<Rightarrow>
          if n \<noteq> Number (int (length values)) then Throw ArityMismatch s
          else (case parentEnvironment of
                  None \<Rightarrow> Throw TypeError s
                | Some parent \<Rightarrow>
                    (case bindAll (heap s) variables values (length values) (Map.empty, parent) of
                       None \<Rightarrow> Unmodelled
                     | Some (frame, prototype) \<Rightarrow>
                         Return (nextObject s # prototype)
                           (s\<lparr>heap := (heap s)(nextObject s := frame),
                              nextObject := Suc (nextObject s)\<rparr>))))"

text \<open>
  \<open>variable in environment\<close>, then \<open>environment[variable]\<close>: the data property found
  along the chain, or, for the accessor, the prototype of \<open>environment\<close>, which is
  \<open>null\<close> for \<open>Object.prototype\<close> and an environment otherwise.
\<close>

definition lookupVariableValue :: "expr \<Rightarrow> environment \<Rightarrow> state \<Rightarrow> val outcome" where
  "lookupVariableValue variable environment s =
     (case environment of
        [] \<Rightarrow> Throw TypeError s
      | a # as \<Rightarrow>
          if hasProperty (heap s) (toString variable) environment
          then (case getProperty (heap s) (toString variable) environment of
                  Some v \<Rightarrow> Return v s
                | None \<Rightarrow> if as = [] then Return (Data Null) s else Unmodelled)
          else Throw ReferenceError s)"

definition defineVariable :: "expr \<Rightarrow> val \<Rightarrow> environment \<Rightarrow> state \<Rightarrow> val outcome" where
  "defineVariable variable value environment s = putProperty variable value environment s"

text \<open>
  \<open>environment.hasOwnProperty(variable)\<close> is a method call: the method is itself found
  along the chain. While the name resolves to the host's own function the call tests the
  own properties of \<open>environment\<close>; another host function is called with
  \<open>environment\<close> as \<open>this\<close>; anything else is not callable.
\<close>

definition callHasOwnProperty :: "host \<Rightarrow> expr \<Rightarrow> environment \<Rightarrow> state \<Rightarrow> bool outcome" where
  "callHasOwnProperty h variable environment s =
     (case environment of
        [] \<Rightarrow> Throw TypeError s
      | a # as \<Rightarrow>
          (case getProperty (heap s) ''hasOwnProperty'' environment of
             Some (Native name) \<Rightarrow>
               if name = ''Object.prototype.hasOwnProperty''
               then Return (heap s a (toString variable) \<noteq> None \<or>
                            protoAccessor a (toString variable)) s
               else (case applyNative h name environment [Data variable] s of
                       Return v s' \<Rightarrow> Return (truthy v) s'
                     | Throw x s' \<Rightarrow> Throw x s'
                     | Exhausted \<Rightarrow> Exhausted
                     | Unmodelled \<Rightarrow> Unmodelled)
           | _ \<Rightarrow> Throw TypeError s))"

text \<open>The \<open>do ... while (environment = Object.getPrototypeOf(environment))\<close> loop; its
  result is the value of \<open>environment\<close> after the loop, \<open>[]\<close> once the chain is used up.\<close>

fun findFrame :: "host \<Rightarrow> expr \<Rightarrow> environment \<Rightarrow> state \<Rightarrow> environment outcome" where
  "findFrame h variable [] s = Return [] s"
| "findFrame h variable (a # as) s =
     (case callHasOwnProperty h variable (a # as) s of
        Return found s' \<Rightarrow> if found then Return (a # as) s' else findFrame h variable as s'
      | Throw x s' \<Rightarrow> Throw x s'
      | Exhausted \<Rightarrow> Exhausted
      | Unmodelled \<Rightarrow> Unmodelled)"

definition setVariableValue :: "host \<Rightarrow> expr \<Rightarrow> val \<Rightarrow> environment \<Rightarrow> state \<Rightarrow> val outcome" where
  "setVariableValue h variable value environment s =
     (case environment of
        [] \<Rightarrow> Throw TypeError s
      | a # as \<Rightarrow>
          if \<not> hasProperty (heap s) (toString variable) environment then Throw ReferenceError s
          else (case findFrame h variable environment s of
                  Return frame s' \<Rightarrow> putProperty variable value frame s'
                | Throw x s' \<Rightarrow> Throw x s'
                | Exhausted \<Rightarrow> Exhausted
                | Unmodelled \<Rightarrow> Unmodelled))"

section \<open>The evaluator of lesson 7\<close>

type_synonym evaluator = "expr \<Rightarrow> environment \<Rightarrow> state \<Rightarrow> val outcome"

subsection \<open>Sequences and argument lists\<close>

text \<open>\<open>expressions.forEach\<close>, with \<open>returnResult\<close> as the accumulator.\<close>

fun evalEach :: "evaluator \<Rightarrow> expr list \<Rightarrow> environment \<Rightarrow> val \<Rightarrow> state \<Rightarrow> val outcome" where
  "evalEach ev [] environment returnResult s = Return returnResult s"
| "evalEach ev (expression # expressions) environment returnResult s =
     (case ev expression environment s of
        Return v s' \<Rightarrow> evalEach ev expressions environment v s'
      | Throw x s' \<Rightarrow> Throw x s'
      | Exhausted \<Rightarrow> Exhausted
      | Unmodelled \<Rightarrow> Unmodelled)"

definition evalSequence :: "evaluator \<Rightarrow> expr \<Rightarrow> environment \<Rightarrow> state \<Rightarrow> val outcome" where
  "evalSequence ev expressions environment s =
     (case expressions of
        Arr es \<Rightarrow> evalEach ev es environment (Data Undefined) s
      | _ \<Rightarrow> Throw TypeError s)"

fun mapEvaluate :: "evaluator \<Rightarrow> expr list \<Rightarrow> environment \<Rightarrow> state \<Rightarrow> val list outcome" where
  "mapEvaluate ev [] environment s = Return [] s"
| "mapEvaluate ev (argument # arguments) environment s =
     (case ev argument environment s of
        Return v s' \<Rightarrow>
          (case mapEvaluate ev arguments environment s' of
             Return vs s'' \<Rightarrow> Return (v # vs) s''
           | Throw x s'' \<Rightarrow> Throw x s''
           | Exhausted \<Rightarrow> Exhausted
           | Unmodelled \<Rightarrow> Unmodelled)
      | Throw x s' \<Rightarrow> Throw x s'
      | Exhausted \<Rightarrow> Exhausted
      | Unmodelled \<Rightarrow> Unmodelled)"

definition getArgumentValues :: "evaluator \<Rightarrow> expr \<Rightarrow> environment \<Rightarrow> state \<Rightarrow> val list outcome" where
  "getArgumentValues ev expressions environment s =
     (case expressions of
        Arr es \<Rightarrow> mapEvaluate ev es environment s
      | _ \<Rightarrow> Throw TypeError s)"

subsection \<open>Functions\<close>

definition makeFunction :: "expr \<Rightarrow> expr \<Rightarrow> environment \<Rightarrow> val" where
  "makeFunction parameters body parentEnvironment = Closure parameters body parentEnvironment"

definition getFunctionBody :: "val \<Rightarrow> error + expr" where
  "getFunctionBody procedure =
     (case procedure of
        Closure parameters body env \<Rightarrow> Inr body
      | Data e \<Rightarrow> jsIndex e 2
      | Native name \<Rightarrow> Inr Undefined)"

definition getFunctionParameters :: "val \<Rightarrow> error + expr" where
  "getFunctionParameters procedure =
     (case procedure of
        Closure parameters body env \<Rightarrow> Inr parameters
      | Data e \<Rightarrow> jsIndex e 1
      | Native name \<Rightarrow> Inr Undefined)"

text \<open>\<open>procedure.environment\<close>.\<close>

definition getFunctionEnvironment :: "val \<Rightarrow> environment option" where
  "getFunctionEnvironment procedure =
     (case procedure of Closure parameters body env \<Rightarrow> Some env | _ \<Rightarrow> None)"

definition isUserDefinedFunction :: "val \<Rightarrow> error + bool" where
  "isUserDefinedFunction procedure =
     (case procedure of
        Closure parameters body env \<Rightarrow> Inr True
      | Data e \<Rightarrow> isTaggedList ''function'' e
      | Native name \<Rightarrow> Inr False)"

definition makeLambda :: "expr \<Rightarrow> expr \<Rightarrow> expr" where
  "makeLambda parameters body =
     (case body of
        Arr es \<Rightarrow> Arr ([Str ''lambda'', parameters] @ es)
      | _ \<Rightarrow> Arr [Str ''lambda'', parameters, body])"

definition getLambdaBody :: "expr \<Rightarrow> error + expr" where
  "getLambdaBody lambda = jsSlice lambda 2"

definition getLambdaParameters :: "expr \<Rightarrow> error + expr" where
  "getLambdaParameters lambda = jsIndex lambda 1"

definition getBlockActions :: "expr \<Rightarrow> error + expr" where
  "getBlockActions block = jsSlice block 1"

definition applyUserDefinedFunction :: "evaluator \<Rightarrow> val \<Rightarrow> val list \<Rightarrow> state \<Rightarrow> val outcome" where
  "applyUserDefinedFunction ev procedure arguments s =
     (case getFunctionBody procedure of
        Inl x \<Rightarrow> Throw x s
      | Inr body \<Rightarrow>
     (case getFunctionParameters procedure of
        Inl x \<Rightarrow> Throw x s
      | Inr parameters \<Rightarrow>
     (case extendEnvironment parameters arguments (getFunctionEnvironment procedure) s of
        Return environment s' \<Rightarrow> evalSequence ev body environment s'
      | Throw x s' \<Rightarrow> Throw x s'
      | Exhausted \<Rightarrow> Exhausted
      | Unmodelled \<Rightarrow> Unmodelled)))"

text \<open>\<open>apply\<close> has no third branch: for a value of neither kind the function ends
  without a \<open>return\<close>.\<close>

definition applyProcedure :: "host \<Rightarrow> evaluator \<Rightarrow> val \<Rightarrow> val list \<Rightarrow> state \<Rightarrow> val outcome" where
  "applyProcedure h ev procedure arguments s =
     (case procedure of
        Native name \<Rightarrow> applyBuiltInFunction h name arguments s
      | _ \<Rightarrow>
          (case isUserDefinedFunction procedure of
             Inl x \<Rightarrow> Throw x s
           | Inr True \<Rightarrow> applyUserDefinedFunction ev procedure arguments s
           | Inr False \<Rightarrow> Return (Data Undefined) s))"

subsection \<open>Definitions and assignments\<close>

definition getDefinitionName :: "expr \<Rightarrow> error + expr" where
  "getDefinitionName expression =
     (case jsIndex expression 1 of
        Inl x \<Rightarrow> Inl x
      | Inr target \<Rightarrow> if isVariable target then Inr target else jsIndex target 0)"

definition getDefinitionValue :: "expr \<Rightarrow> error + expr" where
  "getDefinitionValue expression =
     (case jsIndex expression 1 of
        Inl x \<Rightarrow> Inl x
      | Inr target \<Rightarrow>
          if isVariable target then jsIndex expression 2
          else (case jsSlice target 1 of
                  Inl x \<Rightarrow> Inl x
                | Inr parameters \<Rightarrow>
                    (case jsSlice expression 2 of
                       Inl x \<Rightarrow> Inl x
                     | Inr body \<Rightarrow> Inr (makeLambda parameters body))))"

definition getAssignmentValue :: "expr \<Rightarrow> error + expr" where
  "getAssignmentValue expression = jsIndex expression 2"

definition getAssignmentName :: "expr \<Rightarrow> error + expr" where
  "getAssignmentName expression = jsIndex expression 1"

definition evalDefinition :: "evaluator \<Rightarrow> expr \<Rightarrow> environment \<Rightarrow> state \<Rightarrow> val outcome" where
  "evalDefinition ev expression environment s =
     (case getDefinitionName expression of
        Inl x \<Rightarrow> Throw x s
      | Inr name \<Rightarrow>
     (case getDefinitionValue expression of
        Inl x \<Rightarrow> Throw x s
      | Inr valueExpression \<Rightarrow>
     (case ev valueExpression environment s of
        Return v s' \<Rightarrow> defineVariable name v environment s'
      | Throw x s' \<Rightarrow> Throw x s'
      | Exhausted \<Rightarrow> Exhausted
      | Unmodelled \<Rightarrow> Unmodelled)))"

definition evalAssignment :: "host \<Rightarrow> evaluator \<Rightarrow> expr \<Rightarrow> environment \<Rightarrow> state \<Rightarrow> val outcome" where
  "evalAssignment h ev expression environment s =
     (case getAssignmentName expression of
        Inl x \<Rightarrow> Throw x s
      | Inr name \<Rightarrow>
     (case getAssignmentValue expression of
        Inl x \<Rightarrow> Throw x s
      | Inr valueExpression \<Rightarrow>
     (case ev valueExpression environment s of
        Return v s' \<Rightarrow> setVariableValue h name v environment s'
      | Throw x s' \<Rightarrow> Throw x s'
      | Exhausted \<Rightarrow> Exhausted
      | Unmodelled \<Rightarrow> Unmodelled)))"

subsection \<open>Conditionals\<close>

definition evalIf :: "evaluator \<Rightarrow> expr \<Rightarrow> environment \<Rightarrow> state \<Rightarrow> val outcome" where
  "evalIf ev ifExpression environment s =
     (case getIfPredicate ifExpression of
        Inl x \<Rightarrow> Throw x s
      | Inr predicate \<Rightarrow>
     (case ev predicate environment s of
        Return v s' \<Rightarrow>
          if truthy v
          then (case getIfConsequent ifExpression of
                  Inl x \<Rightarrow> Throw x s'
                | Inr consequent \<Rightarrow> ev consequent environment s')
          else (case getIfAlternative ifExpression of
                  Inl x \<Rightarrow> Throw x s'
                | Inr alternative \<Rightarrow> ev alternative environment s')
      | Throw x s' \<Rightarrow> Throw x s'
      | Exhausted \<Rightarrow> Exhausted
      | Unmodelled \<Rightarrow> Unmodelled))"

subsection \<open>Applications\<close>

definition getOperator :: "expr \<Rightarrow> error + expr" where
  "getOperator expression = jsIndex expression 0"

definition getArguments :: "expr \<Rightarrow> error + expr" where
  "getArguments expression = jsSlice expression 1"

definition evalApplication :: "host \<Rightarrow> evaluator \<Rightarrow> expr \<Rightarrow> environment \<Rightarrow> state \<Rightarrow> val outcome" where
  "evalApplication h ev expression environment s =
     (case getOperator expression of
        Inl x \<Rightarrow> Throw x s
      | Inr operator \<Rightarrow>
     (case ev operator environment s of
        Return procedure s' \<Rightarrow>
          (case getArguments expression of
             Inl x \<Rightarrow> Throw x s'
           | Inr operands \<Rightarrow>
          (case getArgumentValues ev operands environment s' of
             Return arguments s'' \<Rightarrow> applyProcedure h ev procedure arguments s''
           | Throw x s'' \<Rightarrow> Throw x s''
           | Exhausted \<Rightarrow> Exhausted
           | Unmodelled \<Rightarrow> Unmodelled))
      | Throw x s' \<Rightarrow> Throw x s'
      | Exhausted \<Rightarrow> Exhausted
      | Unmodelled \<Rightarrow> Unmodelled))"

subsection \<open>evaluate\<close>

text \<open>
  \<open>evaluate\<close> calls itself without bound on the host; here every nested call takes
  one unit of \<open>depth\<close>, and a call with none left is \<open>Exhausted\<close>. The branches
  that the source writes inside \<open>evaluate\<close> are named \<open>evalLambda\<close>,
  \<open>evalBlock\<close>, \<open>evalCond\<close> and \<open>evalApplication\<close>.
\<close>

text \<open>\<open>environment || (environment = TheGlobalEnvironment)\<close>.\<close>

definition orGlobal :: "environment \<Rightarrow> environment" where
  "orGlobal environment = (if environment = [] then TheGlobalEnvironment else environment)"

definition evalLambda :: "expr \<Rightarrow> environment \<Rightarrow> state \<Rightarrow> val outcome" where
  "evalLambda expression environment s =
     (case getLambdaParameters expression of
        Inl x \<Rightarrow> Throw x s
      | Inr parameters \<Rightarrow>
     (case getLambdaBody expression of
        Inl x \<Rightarrow> Throw x s
      | Inr body \<Rightarrow> Return (makeFunction parameters body environment) s))"

definition evalBlock :: "evaluator \<Rightarrow> expr \<Rightarrow> environment \<Rightarrow> state \<Rightarrow> val outcome" where
  "evalBlock ev expression environment s =
     (case getBlockActions expression of
        Inl x \<Rightarrow> Throw x s
      | Inr actions \<Rightarrow> evalSequence ev actions environment s)"

definition evalCond :: "evaluator \<Rightarrow> expr \<Rightarrow> environment \<Rightarrow> state \<Rightarrow> val outcome" where
  "evalCond ev expression environment s =
     (case condToIf expression of
        Inl x \<Rightarrow> Throw x s
      | Inr ifExpression \<Rightarrow> ev ifExpression environment s)"

text \<open>The dispatch of \<open>evaluate\<close>, test by test in the order of the source; the
  recursive calls are those of \<open>ev\<close>.\<close>

definition dispatch :: "host \<Rightarrow> evaluator \<Rightarrow> expr \<Rightarrow> environment \<Rightarrow> state \<Rightarrow> val outcome" where
  "dispatch h ev expression environment s =
     (if isSelfEvaluating expression then Return (Data expression) s
      else if isVariable expression then lookupVariableValue expression environment s
      else (case isDefinition expression of
        Inl x \<Rightarrow> Throw x s
      | Inr True \<Rightarrow> evalDefinition ev expression environment s
      | Inr False \<Rightarrow>
      (case isAssignment expression of
        Inl x \<Rightarrow> Throw x s
      | Inr True \<Rightarrow> evalAssignment h ev expression environment s
      | Inr False \<Rightarrow>
      (case isLambda expression of
        Inl x \<Rightarrow> Throw x s
      | Inr True \<Rightarrow> evalLambda expression environment s
      | Inr False \<Rightarrow>
      (case isBlock expression of
        Inl x \<Rightarrow> Throw x s
      | Inr True \<Rightarrow> evalBlock ev expression environment s
      | Inr False \<Rightarrow>
      (case isIf expression of
        Inl x \<Rightarrow> Throw x s
      | Inr True \<Rightarrow> evalIf ev expression environment s
      | Inr False \<Rightarrow>
      (case isCond expression of
        Inl x \<Rightarrow> Throw x s
      | Inr True \<Rightarrow> evalCond ev expression environment s
      | Inr False \<Rightarrow>
          if isApplication expression then evalApplication h ev expression environment s
          else Return (Data Undefined) s)))))))"

primrec evaluate :: "host \<Rightarrow> nat \<Rightarrow> expr \<Rightarrow> environment \<Rightarrow> state \<Rightarrow> val outcome" where
  "evaluate h 0 expression environment s = Exhausted"
| "evaluate h (Suc depth) expression environment s =
     dispatch h (evaluate h depth) expression (orGlobal environment) s"

subsection \<open>The global environment\<close>

text \<open>
  The data properties of \<open>Object.prototype\<close>: its standard members (ECMAScript 5.1,
  15.2.4) and the four functions of Annex B that the engines add; with the accessor
  \<open>__proto__\<close> of \<open>protoAccessor\<close> these are all its own properties. Then
  \<open>TheGlobalEnvironment\<close> with its own \<open>toString\<close> and the bindings that
  \<open>extendJSObject\<close> copies into it.
\<close>

definition ObjectPrototype :: "string \<rightharpoonup> val" where
  "ObjectPrototype =
     [''constructor'' \<mapsto> Native ''Object'',
      ''toString'' \<mapsto> Native ''Object.prototype.toString'',
      ''toLocaleString'' \<mapsto> Native ''Object.prototype.toLocaleString'',
      ''valueOf'' \<mapsto> Native ''Object.prototype.valueOf'',
      ''hasOwnProperty'' \<mapsto> Native ''Object.prototype.hasOwnProperty'',
      ''isPrototypeOf'' \<mapsto> Native ''Object.prototype.isPrototypeOf'',
      ''propertyIsEnumerable'' \<mapsto> Native ''Object.prototype.propertyIsEnumerable'',
      ''__defineGetter__'' \<mapsto> Native ''Object.prototype.__defineGetter__'',
      ''__defineSetter__'' \<mapsto> Native ''Object.prototype.__defineSetter__'',
      ''__lookupGetter__'' \<mapsto> Native ''Object.prototype.__lookupGetter__'',
      ''__lookupSetter__'' \<mapsto> Native ''Object.prototype.__lookupSetter__'']"

definition globalBindings :: "string \<rightharpoonup> val" where
  "globalBindings =
     [''toString'' \<mapsto> Native ''TheGlobalEnvironment.toString'',
      ''>'' \<mapsto> Native ''>'',
      ''='' \<mapsto> Native ''='',
      ''null?'' \<mapsto> Native ''null?'',
      ''null'' \<mapsto> Data Null,
      ''+'' \<mapsto> Native ''+'',
      ''-'' \<mapsto> Native ''-'',
      ''print'' \<mapsto> Native ''print'']"

definition initialState :: state where
  "initialState =
     \<lparr>heap = (\<lambda>a. if a = 0 then ObjectPrototype else if a = 1 then globalBindings else Map.empty),
      nextObject = 2,
      console = []\<rparr>"

subsection \<open>The registered functions\<close>

text \<open>
  The functions that lesson 7 registers, on integer arguments (\<open>null?\<close> on any
  argument); every other call, whose result depends on the host's coercions of strings
  and arrays or on the identity of objects, is left to \<open>rest\<close>. The theorems about
  \<open>evaluate\<close> hold for every host; the programs that are run below use
  \<open>registered unregistered\<close> and never reach \<open>unregistered\<close>.
\<close>

definition integers :: "val list \<Rightarrow> int list option" where
  "integers args =
     (if list_all (\<lambda>v. case v of Data (Number i) \<Rightarrow> True | _ \<Rightarrow> False) args
      then Some (map (\<lambda>v. case v of Data (Number i) \<Rightarrow> i | _ \<Rightarrow> 0) args)
      else None)"

definition registered :: "host \<Rightarrow> host" where
  "registered rest name this args =
     (if name = ''>'' then
        (case integers (take 2 args) of
           Some [a, b] \<Rightarrow> Inr (Data (Bool (b < a)))
         | _ \<Rightarrow> rest name this args)
      else if name = ''='' then
        (case integers (take 2 args) of
           Some [a, b] \<Rightarrow> Inr (Data (Bool (a = b)))
         | _ \<Rightarrow> rest name this args)
      else if name = ''null?'' then
        (case args of
           [] \<Rightarrow> Inr (Data (Bool False))
         | a # as \<Rightarrow> Inr (Data (Bool (a = Data Null))))
      else if name = ''+'' then
        (case integers args of
           Some (a # as) \<Rightarrow> Inr (Data (Number (foldl (+) a as)))
         | _ \<Rightarrow> rest name this args)
      else if name = ''-'' then
        (case integers args of
           Some [a] \<Rightarrow> Inr (Data (Number (- a)))
         | Some (a # as) \<Rightarrow> Inr (Data (Number (foldl (-) a as)))
         | _ \<Rightarrow> rest name this args)
      else rest name this args)"

text \<open>A host in which every other function throws.\<close>

definition unregistered :: host where
  "unregistered name this args = Inl TypeError"

section \<open>The evaluator of lesson 5\<close>

text \<open>
  Lesson 5 has the same environments, assignments, sequences and applications; it differs
  in the identifier pattern, in \<open>makeFunction\<close> (a plain tagged array: no closure), in
  \<open>apply\<close> (the frame of a call always extends the global environment) and in
  \<open>evalDefinition\<close>.
\<close>

text \<open>The character class of \<open>/^([a-z-A-Z0-9_$+*/\-])+$/\<close>.\<close>

definition isVariableChar5 :: "char \<Rightarrow> bool" where
  "isVariableChar5 c =
     (c \<in> set ''abcdefghijklmnopqrstuvwxyz-ABCDEFGHIJKLMNOPQRSTUVWXYZ0123456789_$+*/-'')"

definition isVariable5 :: "expr \<Rightarrow> bool" where
  "isVariable5 expression =
     (toString expression \<noteq> [] \<and> list_all isVariableChar5 (toString expression))"

definition makeFunction5 :: "expr \<Rightarrow> expr \<Rightarrow> expr" where
  "makeFunction5 parameters body = Arr [Str ''function'', parameters, body]"

definition getDefinitionName5 :: "expr \<Rightarrow> error + expr" where
  "getDefinitionName5 expression =
     (case jsIndex expression 1 of
        Inl x \<Rightarrow> Inl x
      | Inr target \<Rightarrow> if isVariable5 target then Inr target else jsIndex target 0)"

definition getDefinitionValue5 :: "expr \<Rightarrow> error + expr" where
  "getDefinitionValue5 expression =
     (case jsIndex expression 1 of
        Inl x \<Rightarrow> Inl x
      | Inr target \<Rightarrow>
          if isVariable5 target then jsIndex expression 2
          else (case jsSlice target 1 of
                  Inl x \<Rightarrow> Inl x
                | Inr parameters \<Rightarrow>
                    (case jsSlice expression 2 of
                       Inl x \<Rightarrow> Inl x
                     | Inr body \<Rightarrow> Inr (makeFunction5 parameters body))))"

text \<open>
  \<open>definitionValue = evaluate(definitionValue)\<close>: the call passes no environment, so
  \<open>evaluate\<close> takes the global one; \<open>[]\<close> is the missing argument.
\<close>

definition evalDefinition5 :: "evaluator \<Rightarrow> expr \<Rightarrow> environment \<Rightarrow> state \<Rightarrow> val outcome" where
  "evalDefinition5 ev expression environment s =
     (case getDefinitionValue5 expression of
        Inl x \<Rightarrow> Throw x s
      | Inr definitionValue \<Rightarrow>
     (case isTaggedList ''function'' definitionValue of
        Inl x \<Rightarrow> Throw x s
      | Inr True \<Rightarrow>
          (case getDefinitionName5 expression of
             Inl x \<Rightarrow> Throw x s
           | Inr name \<Rightarrow> defineVariable name (Data definitionValue) environment s)
      | Inr False \<Rightarrow>
          (case ev definitionValue [] s of
             Return v s' \<Rightarrow>
               (case getDefinitionName5 expression of
                  Inl x \<Rightarrow> Throw x s'
                | Inr name \<Rightarrow> defineVariable name v environment s')
           | Throw x s' \<Rightarrow> Throw x s'
           | Exhausted \<Rightarrow> Exhausted
           | Unmodelled \<Rightarrow> Unmodelled)))"

definition applyProcedure5 :: "host \<Rightarrow> evaluator \<Rightarrow> val \<Rightarrow> val list \<Rightarrow> state \<Rightarrow> val outcome" where
  "applyProcedure5 h ev procedure arguments s =
     (case procedure of
        Native name \<Rightarrow> applyBuiltInFunction h name arguments s
      | _ \<Rightarrow>
          (case isUserDefinedFunction procedure of
             Inl x \<Rightarrow> Throw x s
           | Inr True \<Rightarrow>
               (case getFunctionBody procedure of
                  Inl x \<Rightarrow> Throw x s
                | Inr body \<Rightarrow>
               (case getFunctionParameters procedure of
                  Inl x \<Rightarrow> Throw x s
                | Inr parameters \<Rightarrow>
               (case extendEnvironment parameters arguments (Some TheGlobalEnvironment) s of
                  Return environment s' \<Rightarrow> evalSequence ev body environment s'
                | Throw x s' \<Rightarrow> Throw x s'
                | Exhausted \<Rightarrow> Exhausted
                | Unmodelled \<Rightarrow> Unmodelled)))
           | Inr False \<Rightarrow> Return (Data Undefined) s))"

definition evalApplication5 :: "host \<Rightarrow> evaluator \<Rightarrow> expr \<Rightarrow> environment \<Rightarrow> state \<Rightarrow> val outcome" where
  "evalApplication5 h ev expression environment s =
     (case getOperator expression of
        Inl x \<Rightarrow> Throw x s
      | Inr operator \<Rightarrow>
     (case ev operator environment s of
        Return procedure s' \<Rightarrow>
          (case getArguments expression of
             Inl x \<Rightarrow> Throw x s'
           | Inr operands \<Rightarrow>
          (case getArgumentValues ev operands environment s' of
             Return arguments s'' \<Rightarrow> applyProcedure5 h ev procedure arguments s''
           | Throw x s'' \<Rightarrow> Throw x s''
           | Exhausted \<Rightarrow> Exhausted
           | Unmodelled \<Rightarrow> Unmodelled))
      | Throw x s' \<Rightarrow> Throw x s'
      | Exhausted \<Rightarrow> Exhausted
      | Unmodelled \<Rightarrow> Unmodelled))"

definition dispatch5 :: "host \<Rightarrow> evaluator \<Rightarrow> expr \<Rightarrow> environment \<Rightarrow> state \<Rightarrow> val outcome" where
  "dispatch5 h ev expression environment s =
     (if isSelfEvaluating expression then Return (Data expression) s
      else if isVariable5 expression then lookupVariableValue expression environment s
      else (case isDefinition expression of
        Inl x \<Rightarrow> Throw x s
      | Inr True \<Rightarrow> evalDefinition5 ev expression environment s
      | Inr False \<Rightarrow>
      (case isAssignment expression of
        Inl x \<Rightarrow> Throw x s
      | Inr True \<Rightarrow> evalAssignment h ev expression environment s
      | Inr False \<Rightarrow>
          if isApplication expression then evalApplication5 h ev expression environment s
          else Return (Data Undefined) s)))"

primrec evaluate5 :: "host \<Rightarrow> nat \<Rightarrow> expr \<Rightarrow> environment \<Rightarrow> state \<Rightarrow> val outcome" where
  "evaluate5 h 0 expression environment s = Exhausted"
| "evaluate5 h (Suc depth) expression environment s =
     dispatch5 h (evaluate5 h depth) expression (orGlobal environment) s"

definition globalBindings5 :: "string \<rightharpoonup> val" where
  "globalBindings5 =
     [''toString'' \<mapsto> Native ''TheGlobalEnvironment.toString'',
      ''+'' \<mapsto> Native ''+'',
      ''*'' \<mapsto> Native ''*'',
      ''print'' \<mapsto> Native ''print'']"

definition initialState5 :: state where
  "initialState5 =
     \<lparr>heap = (\<lambda>a. if a = 0 then ObjectPrototype else if a = 1 then globalBindings5 else Map.empty),
      nextObject = 2,
      console = []\<rparr>"

section \<open>Programs used below\<close>

definition quoted :: "string \<Rightarrow> expr" where
  "quoted name = Str (CHR 0x27 # name)"

text \<open>The example of the header of lesson 7,
  \<open>(cond ((> x 0) x) ((= x 0) (print 'zero) 0) (else (- x)))\<close>, and the nested
  \<open>if\<close> that the header gives as its meaning.\<close>

definition condExample :: expr where
  "condExample =
     Arr [Str ''cond'',
          Arr [Arr [Str ''>'', Str ''x'', Number 0], Str ''x''],
          Arr [Arr [Str ''='', Str ''x'', Number 0], Arr [Str ''print'', quoted ''zero''], Number 0],
          Arr [Str ''else'', Arr [Str ''-'', Str ''x'']]]"

definition condExampleByHand :: expr where
  "condExampleByHand =
     Arr [Str ''if'', Arr [Str ''>'', Str ''x'', Number 0], Str ''x'',
          Arr [Str ''if'', Arr [Str ''='', Str ''x'', Number 0],
               Arr [Str ''begin'', Arr [Str ''print'', quoted ''zero''], Number 0],
               Arr [Str ''-'', Str ''x'']]]"

text \<open>\<open>(begin (define x 0) e)\<close>.\<close>

definition withXZero :: "expr \<Rightarrow> expr" where
  "withXZero e = Arr [Str ''begin'', Arr [Str ''define'', Str ''x'', Number 0], e]"

text \<open>\<open>(define (f a) (define b a) b)\<close> and \<open>(f 5)\<close>.\<close>

definition defineF :: expr where
  "defineF =
     Arr [Str ''define'', Arr [Str ''f'', Str ''a''],
          Arr [Str ''define'', Str ''b'', Str ''a''], Str ''b'']"

definition callF :: expr where
  "callF = Arr [Str ''f'', Number 5]"

text \<open>
  \<open>(define (make-cell v) (lambda (new) (define old v) (set! v new) old))\<close>: the
  procedure it returns reads and writes \<open>v\<close>, a variable of the call of
  \<open>make-cell\<close> that created it.
\<close>

definition cellBody :: expr where
  "cellBody =
     Arr [Arr [Str ''define'', Str ''old'', Str ''v''],
          Arr [Str ''set!'', Str ''v'', Str ''new''],
          Str ''old'']"

definition defineMakeCell :: expr where
  "defineMakeCell =
     Arr [Str ''define'', Arr [Str ''make-cell'', Str ''v''],
          Arr [Str ''lambda'', Arr [Str ''new''],
               Arr [Str ''define'', Str ''old'', Str ''v''],
               Arr [Str ''set!'', Str ''v'', Str ''new''],
               Str ''old'']]"

definition defineC :: expr where
  "defineC = Arr [Str ''define'', Str ''c'', Arr [Str ''make-cell'', Number 1]]"

text \<open>The store after \<open>(define (make-cell v) ...)\<close> and \<open>(define c (make-cell 1))\<close>
  have been evaluated in the fresh interpreter: the call of \<open>make-cell\<close> has returned.\<close>

definition cellState :: state where
  "cellState =
     (case evaluate unregistered 4 defineMakeCell [] initialState of
        Return f s \<Rightarrow>
          (case evaluate unregistered 4 defineC [] s of
             Return c s' \<Rightarrow> s'
           | _ \<Rightarrow> initialState)
      | _ \<Rightarrow> initialState)"

section \<open>Notions used in the statements\<close>

text \<open>The store after \<open>extendEnvironment\<close> has allocated the frame of a call.\<close>

definition activation :: "expr \<Rightarrow> val list \<Rightarrow> environment \<Rightarrow> state \<Rightarrow> state" where
  "activation parameters arguments parent s =
     (case extendEnvironment parameters arguments (Some parent) s of
        Return environment s' \<Rightarrow> s'
      | _ \<Rightarrow> s)"

text \<open>The own properties of a frame none of whose parameters meets the accessor: every
  assignment of the loop makes or overwrites an own property.\<close>

fun dataBindings :: "expr list \<Rightarrow> val list \<Rightarrow> nat \<Rightarrow> (string \<rightharpoonup> val) \<Rightarrow> (string \<rightharpoonup> val)" where
  "dataBindings ps args 0 frame = frame"
| "dataBindings ps args (Suc index) frame =
     dataBindings ps args index (frame(toString (ps ! index) \<mapsto> args ! index))"

text \<open>\<open>environment.hasOwnProperty\<close> is the host's function.\<close>

definition hostHasOwnProperty :: "state \<Rightarrow> environment \<Rightarrow> bool" where
  "hostHasOwnProperty s environment =
     (getProperty (heap s) ''hasOwnProperty'' environment =
        Some (Native ''Object.prototype.hasOwnProperty''))"

text \<open>An expression that \<open>evaluate\<close> hands to \<open>apply\<close>: an array that none of the
  earlier tests of the dispatch accepts.\<close>

definition classifiedAsApplication :: "expr \<Rightarrow> bool" where
  "classifiedAsApplication expression =
     (isSelfEvaluating expression = False \<and> isVariable expression = False \<and>
      isDefinition expression = Inr False \<and> isAssignment expression = Inr False \<and>
      isLambda expression = Inr False \<and> isBlock expression = Inr False \<and>
      isIf expression = Inr False \<and> isCond expression = Inr False \<and>
      isApplication expression)"

section \<open>The example of the header, evaluated\<close>

text \<open>
  C1 (a \<open>cond\<close> whose \<open>else\<close> clause, if any, is last evaluates as the nested
  \<open>if\<close>/\<open>begin\<close> chain it denotes; a clause with several actions behaves as the
  \<open>begin\<close> block of them). The code does not do this for a clause with more than one
  action. With \<open>x\<close> bound to 0, the example of the header of lesson 7 prints
  \<open>'zero\<close> and then throws a \<open>TypeError\<close>, while the nested \<open>if\<close> that the same
  header gives as its meaning prints \<open>'zero\<close> and returns 0: \<open>makeBegin\<close> puts the
  array of actions after the tag as one element, so the block holds the single
  expression \<open>((print 'zero) 0)\<close>, an application of the value of
  \<open>(print 'zero)\<close>, which is \<open>undefined\<close>.
\<close>

theorem C1_cond_with_two_actions_differs_from_nested_if:
  "(case evaluate (registered unregistered) 10 (withXZero condExample) [] initialState of
      Throw x s \<Rightarrow> x = TypeError \<and> console s = [[Data (quoted ''zero'')]]
    | _ \<Rightarrow> False) \<and>
   (case evaluate (registered unregistered) 10 (withXZero condExampleByHand) [] initialState of
      Return v s \<Rightarrow> v = Data (Number 0) \<and> console s = [[Data (quoted ''zero'')]]
    | _ \<Rightarrow> False)"
  by code_simp

subsection \<open>What the expansion builds\<close>

text \<open>
  For a clause with one action the expansion is the \<open>if\<close> of the header; for a clause
  with two or more actions the consequent is \<open>["begin", [a, b, ...]]\<close>, an array of two
  elements, where the block \<open>(begin a b ...)\<close> is \<open>["begin", a, b, ...]\<close>.
\<close>

lemma expandCondClauses_one_action:
  assumes "\<not> looseEq p ''else''"
  shows "expandCondClauses (Arr [p, a] # rest) =
           (case expandCondClauses rest of
              Inl x \<Rightarrow> Inl x
            | Inr alternative \<Rightarrow> Inr (makeIf p a alternative))"
  using assms
  by (simp add: isCondElseClause_def getCondPredicate_def getCondActions_def jsIndex_def jsSlice_def
      sequenceExpression_def jsLength_def)

lemma expandCondClauses_else_one_action:
  "expandCondClauses [Arr [Str ''else'', a]] = Inr a"
  by (simp add: isCondElseClause_def getCondPredicate_def looseEq_def getCondActions_def
      jsSlice_def sequenceExpression_def jsLength_def jsIndex_def)

lemma expandCondClauses_several_actions:
  assumes "\<not> looseEq p ''else''"
  shows "expandCondClauses (Arr (p # a # b # actions) # rest) =
           (case expandCondClauses rest of
              Inl x \<Rightarrow> Inl x
            | Inr alternative \<Rightarrow>
                Inr (makeIf p (Arr [Str ''begin'', Arr (a # b # actions)]) alternative))"
  using assms
  by (simp add: isCondElseClause_def getCondPredicate_def getCondActions_def jsIndex_def jsSlice_def
      sequenceExpression_def jsLength_def makeBegin_def)

section \<open>Basic facts\<close>

subsection \<open>Strings that are no numeric literal\<close>

lemma strTrim_Cons:
  assumes "\<not> isStrWhiteSpace c"
  shows "\<exists>u. strTrim (c # t) = c # u"
proof (cases "\<forall>x\<in>set (rev t). isStrWhiteSpace x")
  case True
  then have "dropWhile isStrWhiteSpace (rev t @ [c]) = [c]"
    using assms by (simp add: dropWhile_append)
  then show ?thesis using assms by (simp add: strTrim_def)
next
  case False
  then have "dropWhile isStrWhiteSpace (rev t @ [c]) = dropWhile isStrWhiteSpace (rev t) @ [c]"
    by (simp add: dropWhile_append)
  then show ?thesis using assms by (simp add: strTrim_def)
qed

lemma notNumeric_head:
  assumes "\<not> isStrWhiteSpace c" and "\<not> isDecimalDigit c"
    and "c \<noteq> CHR ''+''" and "c \<noteq> CHR ''-''" and "c \<noteq> CHR ''.''" and "c \<noteq> CHR ''I''"
  shows "\<not> isStringNumericLiteral (c # t)"
proof -
  obtain u where u: "strTrim (c # t) = c # u"
    using strTrim_Cons [OF assms(1)] by blast
  have zero: "c \<noteq> CHR ''0''"
    using assms(2) by (auto simp: isDecimalDigit_def)
  have a: "\<not> isStrUnsignedDecimalLiteral (c # u)"
    using assms by (auto simp: isStrUnsignedDecimalLiteral_def Let_def)
  have b: "\<not> isNonDecimalIntegerLiteral (c # u)"
    using zero by (auto simp: isNonDecimalIntegerLiteral_def split: list.splits)
  show ?thesis
    using a b assms(3,4) by (simp add: isStringNumericLiteral_def u dropSign_def)
qed

lemma tagLetter_notNumeric:
  assumes "c \<in> set ''dslbicf''"
  shows "\<not> isStringNumericLiteral (c # t)"
proof (rule notNumeric_head)
  show "\<not> isStrWhiteSpace c" using assms by (auto simp: isStrWhiteSpace_def)
  show "\<not> isDecimalDigit c" using assms by (auto simp: isDecimalDigit_def)
  show "c \<noteq> CHR ''+''" "c \<noteq> CHR ''-''" "c \<noteq> CHR ''.''" "c \<noteq> CHR ''I''"
    using assms by auto
qed

subsection \<open>Arrays of two or more elements\<close>

lemma comma_in_join: "CHR '','' \<in> set (join (x # y # ys))"
  by simp

lemma isVariable_longer [simp]: "isVariable (Arr (x # y # ys)) = False"
proof -
  have "\<not> isVariableChar (CHR '','')"
    by (simp add: isVariableChar_def)
  moreover have "CHR '','' \<in> set (toString (Arr (x # y # ys)))"
    by simp
  ultimately show ?thesis
    unfolding isVariable_def list_all_iff by blast
qed

lemma toString_tagged: "\<exists>u. toString (Arr (Str (c # t) # rest)) = c # u"
  by (cases rest) simp_all

lemma isSelfEvaluating_tagged:
  assumes "c \<in> set ''dslbicf''"
  shows "isSelfEvaluating (Arr (Str (c # t) # rest)) = False"
proof -
  obtain u where "toString (Arr (Str (c # t) # rest)) = c # u"
    using toString_tagged by blast
  then have "isNaN (Arr (Str (c # t) # rest))"
    using tagLetter_notNumeric [OF assms] by (simp add: isNaN_def)
  then show ?thesis
    by (simp add: isSelfEvaluating_def)
qed

lemma isTaggedList_Arr [simp]: "isTaggedList tag (Arr (Str t # xs)) = Inr (t = tag)"
  by (simp add: isTaggedList_def jsIndex_def looseEq_def)

lemmas taggedTests = isDefinition_def isAssignment_def isLambda_def isBlock_def isIf_def isCond_def



lemma dispatch_define:
  "dispatch h ev (Arr (Str ''define'' # x # xs)) env s = evalDefinition ev (Arr (Str ''define'' # x # xs)) env s"
  by (simp add: dispatch_def taggedTests isSelfEvaluating_tagged)

lemma dispatch_assignment:
  "dispatch h ev (Arr (Str ''set!'' # x # xs)) env s = evalAssignment h ev (Arr (Str ''set!'' # x # xs)) env s"
  by (simp add: dispatch_def taggedTests isSelfEvaluating_tagged)

lemma dispatch_application:
  "classifiedAsApplication e \<Longrightarrow> dispatch h ev e env s = evalApplication h ev e env s"
  by (simp add: dispatch_def classifiedAsApplication_def)

lemma orGlobal_nonempty [simp]: "orGlobal env \<noteq> []"
  by (simp add: orGlobal_def TheGlobalEnvironment_def)

lemma orGlobal_idem [simp]: "orGlobal (orGlobal env) = orGlobal env"
  by (simp add: orGlobal_def TheGlobalEnvironment_def)

lemma orGlobal_Cons [simp]: "orGlobal (a # as) = a # as"
  by (simp add: orGlobal_def)

lemma dispatch_variable:
  "isSelfEvaluating e = False \<Longrightarrow> isVariable e \<Longrightarrow> lookupVariableValue e env s = Return v s \<Longrightarrow>
   dispatch h ev e env s = Return v s"
  by (simp add: dispatch_def)

lemma dispatch_number: "dispatch h ev (Number i) env s = Return (Data (Number i)) s"
  by (simp add: dispatch_def isSelfEvaluating_def isNaN_def)

lemma dispatch_lambda:
  "dispatch h ev (Arr (Str ''lambda'' # parameters # body)) env s =
     Return (Closure parameters (Arr body) env) s"
  by (simp add: dispatch_def taggedTests isSelfEvaluating_tagged evalLambda_def
      getLambdaParameters_def getLambdaBody_def jsIndex_def jsSlice_def makeFunction_def)

subsection \<open>Property lookup along a chain\<close>

lemma no_accessor_of_other_names:
  "k \<noteq> ''__proto__'' \<Longrightarrow> list_ex (\<lambda>a. protoAccessor a k) env = False"
  by (induction env) (simp_all add: protoAccessor_def)

lemma reachesAccessor_other: "k \<noteq> ''__proto__'' \<Longrightarrow> reachesAccessor hp k env = False"
  by (simp add: reachesAccessor_def no_accessor_of_other_names)

lemma hasProperty_getProperty:
  "hasProperty hp k env =
     (getProperty hp k env \<noteq> None \<or> list_ex (\<lambda>a. protoAccessor a k) env)"
  by (induction env) (auto split: option.splits)

lemma getProperty_skip:
  "\<forall>b\<in>set pre. hp b k = None \<Longrightarrow> getProperty hp k (pre @ rest) = getProperty hp k rest"
  by (induction pre) auto

lemma lookupVariableValue_bound:
  "env \<noteq> [] \<Longrightarrow> getProperty (heap s) (toString x) env = Some v \<Longrightarrow>
   lookupVariableValue x env s = Return v s"
  by (cases env) (simp_all add: lookupVariableValue_def hasProperty_getProperty)

lemma lookupVariableValue_unbound:
  "env \<noteq> [] \<Longrightarrow> \<not> hasProperty (heap s) (toString x) env \<Longrightarrow>
   lookupVariableValue x env s = Throw ReferenceError s"
  by (cases env) (simp_all add: lookupVariableValue_def)

subsection \<open>The frame that an assignment writes\<close>

lemma callHasOwnProperty_host:
  "hostHasOwnProperty s (a # as) \<Longrightarrow>
   callHasOwnProperty h x (a # as) s =
     Return (heap s a (toString x) \<noteq> None \<or> protoAccessor a (toString x)) s"
  by (simp add: callHasOwnProperty_def hostHasOwnProperty_def)

lemma findFrame_nearest:
  assumes "\<forall>b\<in>set pre. heap s b (toString x) = None"
    and "heap s a (toString x) \<noteq> None"
    and "\<forall>k\<le>length pre. hostHasOwnProperty s (drop k (pre @ a # post))"
    and "toString x \<noteq> ''__proto__''"
  shows "findFrame h x (pre @ a # post) s = Return (a # post) s"
  using assms
proof (induction pre)
  case Nil
  then have "hostHasOwnProperty s (a # post)" by simp
  then show ?case using Nil.prems(2) by (simp add: callHasOwnProperty_host)
next
  case (Cons b pre)
  have "hostHasOwnProperty s (drop 0 ((b # pre) @ a # post))"
    using Cons.prems(3) by blast
  then have here: "hostHasOwnProperty s (b # pre @ a # post)" by simp
  have rest: "\<forall>k\<le>length pre. hostHasOwnProperty s (drop k (pre @ a # post))"
  proof (intro allI impI)
    fix k assume "k \<le> length pre"
    then have "Suc k \<le> length (b # pre)" by simp
    then have "hostHasOwnProperty s (drop (Suc k) ((b # pre) @ a # post))"
      using Cons.prems(3) by blast
    then show "hostHasOwnProperty s (drop k (pre @ a # post))" by simp
  qed
  have "findFrame h x (pre @ a # post) s = Return (a # post) s"
    using Cons.IH Cons.prems(1,2,4) rest by simp
  then show ?case
    using here Cons.prems(1,4) by (simp add: callHasOwnProperty_host protoAccessor_def)
qed

lemma setVariableValue_nearest:
  assumes "\<forall>b\<in>set pre. heap s b (toString x) = None"
    and "heap s a (toString x) \<noteq> None"
    and "\<forall>k\<le>length pre. hostHasOwnProperty s (drop k (pre @ a # post))"
    and "toString x \<noteq> ''__proto__''"
    and "\<not> (a = 0 \<and> toString x = ''valueOf'' \<and> isCallable v)"
  shows "setVariableValue h x v (pre @ a # post) s =
         Return v (s\<lparr>heap := (heap s)(a := (heap s a)(toString x \<mapsto> v))\<rparr>)"
proof -
  have found: "findFrame h x (pre @ a # post) s = Return (a # post) s"
    using assms(1-4) by (rule findFrame_nearest)
  have "getProperty (heap s) (toString x) (pre @ a # post) \<noteq> None"
    using assms(1,2) by (auto simp: getProperty_skip)
  then have bound: "hasProperty (heap s) (toString x) (pre @ a # post)"
    by (simp add: hasProperty_getProperty)
  obtain c cs where shape: "pre @ a # post = c # cs"
    by (cases pre) auto
  have put: "putProperty x v (a # post) s =
      Return v (s\<lparr>heap := (heap s)(a := (heap s a)(toString x \<mapsto> v))\<rparr>)"
    using assms(4,5) by (auto simp: putProperty_def reachesAccessor_other)
  show ?thesis
    using found bound put unfolding shape
    by (simp add: setVariableValue_def)
qed

lemma setVariableValue_unbound:
  assumes "env \<noteq> []" and "\<not> hasProperty (heap s) (toString x) env"
  shows "setVariableValue h x v env s = Throw ReferenceError s"
  using assms by (cases env) (simp_all add: setVariableValue_def)

subsection \<open>The frame of a call\<close>

lemma dataBindings_other:
  "n \<le> length ps \<Longrightarrow> \<forall>j<n. toString (ps ! j) \<noteq> k \<Longrightarrow>
   dataBindings ps args n m k = m k"
proof (induction n arbitrary: m)
  case 0
  then show ?case by simp
next
  case (Suc n)
  have "toString (ps ! n) \<noteq> k" using Suc.prems(2) by blast
  moreover have "\<forall>j<n. toString (ps ! j) \<noteq> k" using Suc.prems(2) by simp
  ultimately show ?case
    using Suc.IH Suc.prems(1) by simp
qed

lemma dataBindings_first:
  "i < n \<Longrightarrow> n \<le> length ps \<Longrightarrow> \<forall>j<i. toString (ps ! j) \<noteq> toString (ps ! i) \<Longrightarrow>
   dataBindings ps args n m (toString (ps ! i)) = Some (args ! i)"
proof (induction n arbitrary: m)
  case 0
  then show ?case by simp
next
  case (Suc n)
  show ?case
  proof (cases "i = n")
    case True
    then show ?thesis
      using Suc.prems by (simp add: dataBindings_other)
  next
    case False
    then have "i < n" using Suc.prems(1) by simp
    then show ?thesis
      using Suc.IH Suc.prems by simp
  qed
qed

lemma dom_dataBindings:
  "n \<le> length ps \<Longrightarrow> dom (dataBindings ps args n m) = dom m \<union> toString ` set (take n ps)"
proof (induction n arbitrary: m)
  case 0
  then show ?case by simp
next
  case (Suc n)
  then show ?case
    by (auto simp: take_Suc_conv_app_nth)
qed

lemma bindAll_dataBindings:
  "n \<le> length ps \<Longrightarrow> \<forall>j<n. toString (ps ! j) \<noteq> ''__proto__'' \<Longrightarrow>
   bindAll hp (Arr ps) args n (frame, parent) = Some (dataBindings ps args n frame, parent)"
proof (induction n arbitrary: frame)
  case 0
  then show ?case by simp
next
  case (Suc n)
  have here: "toString (ps ! n) \<noteq> ''__proto__''" using Suc.prems(2) by blast
  have below: "\<forall>j<n. toString (ps ! j) \<noteq> ''__proto__''" using Suc.prems(2) by simp
  have "bindParameters hp (Arr ps) args n (frame, parent) =
        Some (frame(toString (ps ! n) \<mapsto> args ! n), parent)"
    using here Suc.prems(1) by (simp add: bindParameters_def jsIndex_def reachesAccessor_other)
  then have step: "bindAll hp (Arr ps) args (Suc n) (frame, parent) =
      bindAll hp (Arr ps) args n (frame(toString (ps ! n) \<mapsto> args ! n), parent)"
    by simp
  have rest: "bindAll hp (Arr ps) args n (frame(toString (ps ! n) \<mapsto> args ! n), parent) =
      Some (dataBindings ps args n (frame(toString (ps ! n) \<mapsto> args ! n)), parent)"
    using Suc.prems(1) below by (intro Suc.IH) simp_all
  show ?case
    unfolding step rest by simp
qed

lemma no_parameter_meets_the_accessor:
  "''__proto__'' \<notin> toString ` set ps \<Longrightarrow> \<forall>j<length ps. toString (ps ! j) \<noteq> ''__proto__''"
  by (metis image_eqI nth_mem)

lemma extendEnvironment_data:
  "length ps = length args \<Longrightarrow> ''__proto__'' \<notin> toString ` set ps \<Longrightarrow>
   extendEnvironment (Arr ps) args (Some cenv) s =
     Return (nextObject s # cenv)
       (s\<lparr>heap := (heap s)(nextObject s := dataBindings ps args (length args) Map.empty),
          nextObject := Suc (nextObject s)\<rparr>)"
  using bindAll_dataBindings [of "length args" ps "heap s" args Map.empty cenv]
    no_parameter_meets_the_accessor [of ps]
  by (simp add: extendEnvironment_def jsLength_def)

lemma activation_data:
  "length ps = length args \<Longrightarrow> ''__proto__'' \<notin> toString ` set ps \<Longrightarrow>
   activation (Arr ps) args cenv s =
     s\<lparr>heap := (heap s)(nextObject s := dataBindings ps args (length args) Map.empty),
       nextObject := Suc (nextObject s)\<rparr>"
  by (simp add: activation_def extendEnvironment_data)

lemma extendEnvironment_equal:
  "length ps = length args \<Longrightarrow> ''__proto__'' \<notin> toString ` set ps \<Longrightarrow>
   extendEnvironment (Arr ps) args (Some cenv) s =
     Return (nextObject s # cenv) (activation (Arr ps) args cenv s)"
  by (simp add: activation_data extendEnvironment_data)

lemma extendEnvironment_different:
  "length ps \<noteq> length args \<Longrightarrow>
   extendEnvironment (Arr ps) args parent s = Throw ArityMismatch s"
  by (simp add: extendEnvironment_def jsLength_def)

lemma applyProcedure_Closure:
  "applyProcedure h ev (Closure ps body cenv) args s =
     (case extendEnvironment ps args (Some cenv) s of
        Return environment s' \<Rightarrow> evalSequence ev body environment s'
      | Throw x s' \<Rightarrow> Throw x s'
      | Exhausted \<Rightarrow> Exhausted
      | Unmodelled \<Rightarrow> Unmodelled)"
  by (simp add: applyProcedure_def isUserDefinedFunction_def applyUserDefinedFunction_def
      getFunctionBody_def getFunctionParameters_def getFunctionEnvironment_def)

section \<open>Claims about procedures and conditionals\<close>

subsection \<open>Arity\<close>

text \<open>
  C5 (arity of a compound procedure), counterexample. The claim has the new frame bind the
  parameter of every index to the argument of that index. The loop of
  \<open>extendEnvironment\<close> assigns from the last index down to 0, so of a name that occurs
  twice the first occurrence is assigned last: the frame of \<open>(lambda (a a) a)\<close> called
  with 1 and 2 holds 1 under \<open>a\<close>, not the 2 of index 1, and the call returns 1. And
  the assignment of a parameter named \<open>__proto__\<close> runs the accessor inherited from
  the host's \<open>Object.prototype\<close>: called with 5, the frame of
  \<open>(lambda (__proto__) 0)\<close> has no property of that name.
\<close>

theorem C5_arity_counterexample:
  "(case extendEnvironment (Arr [Str ''a'', Str ''a'']) [Data (Number 1), Data (Number 2)]
          (Some TheGlobalEnvironment) initialState of
      Return environment s \<Rightarrow>
        environment = [2, 1, 0] \<and>
        heap s 2 ''a'' = Some (Data (Number 1)) \<and>
        heap s 2 ''a'' \<noteq> Some ([Data (Number 1), Data (Number 2)] ! 1)
    | _ \<Rightarrow> False) \<and>
   (case evaluate (registered unregistered) 4
          (Arr [Arr [Str ''lambda'', Arr [Str ''a'', Str ''a''], Str ''a''], Number 1, Number 2])
          [] initialState of
      Return v s \<Rightarrow> v = Data (Number 1)
    | _ \<Rightarrow> False) \<and>
   (case extendEnvironment (Arr [Str ''__proto__'']) [Data (Number 5)]
          (Some TheGlobalEnvironment) initialState of
      Return environment s \<Rightarrow>
        environment = [2, 1, 0] \<and>
        heap s 2 ''__proto__'' = None \<and>
        heap s 2 ''__proto__'' \<noteq> Some ([Data (Number 5)] ! 0)
    | _ \<Rightarrow> False)"
  by code_simp

text \<open>
  C5 (arity of a compound procedure), amended. A procedure built by \<open>makeFunction\<close> from a
  parameter list \<open>ps\<close>, applied to \<open>args\<close>: when the counts differ the call throws the
  arity error, whatever the evaluator \<open>ev\<close> of the body is and with the store as it was,
  so no expression of the body has been evaluated; when they agree,
  \<open>extendEnvironment\<close> returns one new frame on top of the procedure's saved
  environment, in which every parameter name holds the argument of the first index at
  which the name occurs (the loop runs from the last index down), hence the argument of its
  own index when the names are distinct; the frame has no other name and every other
  object is as it was; the body is then evaluated in it. Nothing is said of a parameter
  list that has the name \<open>__proto__\<close>, where the frame inherits the host's accessor
  (see C2).
\<close>

theorem C5_arity_of_compound_procedures:
  "(length ps \<noteq> length args \<longrightarrow>
      applyProcedure h ev (Closure (Arr ps) body cenv) args s = Throw ArityMismatch s) \<and>
   (length ps = length args \<and> ''__proto__'' \<notin> toString ` set ps \<longrightarrow>
      applyProcedure h ev (Closure (Arr ps) body cenv) args s =
        evalSequence ev body (nextObject s # cenv) (activation (Arr ps) args cenv s) \<and>
      extendEnvironment (Arr ps) args (Some cenv) s =
        Return (nextObject s # cenv) (activation (Arr ps) args cenv s) \<and>
      (\<forall>i<length ps. (\<forall>j<i. toString (ps ! j) \<noteq> toString (ps ! i)) \<longrightarrow>
         heap (activation (Arr ps) args cenv s) (nextObject s) (toString (ps ! i)) =
           Some (args ! i)) \<and>
      (distinct (map toString ps) \<longrightarrow>
         (\<forall>i<length ps.
            heap (activation (Arr ps) args cenv s) (nextObject s) (toString (ps ! i)) =
              Some (args ! i))) \<and>
      dom (heap (activation (Arr ps) args cenv s) (nextObject s)) = toString ` set ps \<and>
      (\<forall>a. a \<noteq> nextObject s \<longrightarrow> heap (activation (Arr ps) args cenv s) a = heap s a))"
proof (intro conjI impI allI)
  assume "length ps \<noteq> length args"
  then show "applyProcedure h ev (Closure (Arr ps) body cenv) args s = Throw ArityMismatch s"
    by (simp add: applyProcedure_Closure extendEnvironment_different)
next
  assume "length ps = length args \<and> ''__proto__'' \<notin> toString ` set ps"
  then have eq: "length ps = length args" and plain: "''__proto__'' \<notin> toString ` set ps"
    by simp_all
  show "applyProcedure h ev (Closure (Arr ps) body cenv) args s =
        evalSequence ev body (nextObject s # cenv) (activation (Arr ps) args cenv s)"
    using eq plain by (simp add: applyProcedure_Closure extendEnvironment_equal)
  show "extendEnvironment (Arr ps) args (Some cenv) s =
        Return (nextObject s # cenv) (activation (Arr ps) args cenv s)"
    using eq plain by (rule extendEnvironment_equal)
  show "dom (heap (activation (Arr ps) args cenv s) (nextObject s)) = toString ` set ps"
    using eq plain dom_dataBindings [of "length args" ps args Map.empty]
    by (simp add: activation_data)
next
  fix i
  assume "length ps = length args \<and> ''__proto__'' \<notin> toString ` set ps"
    and i: "i < length ps"
    and first: "\<forall>j<i. toString (ps ! j) \<noteq> toString (ps ! i)"
  then have eq: "length ps = length args" and plain: "''__proto__'' \<notin> toString ` set ps"
    by simp_all
  show "heap (activation (Arr ps) args cenv s) (nextObject s) (toString (ps ! i)) =
        Some (args ! i)"
    using dataBindings_first [of i "length args" ps args Map.empty] eq plain i first
    by (simp add: activation_data)
next
  fix i
  assume "length ps = length args \<and> ''__proto__'' \<notin> toString ` set ps"
    and i: "i < length ps"
    and different: "distinct (map toString ps)"
  then have eq: "length ps = length args" and plain: "''__proto__'' \<notin> toString ` set ps"
    by simp_all
  have first: "\<forall>j<i. toString (ps ! j) \<noteq> toString (ps ! i)"
  proof (intro allI impI)
    fix j assume j: "j < i"
    then have below: "j < length ps" using i by simp
    have "(map toString ps ! j = map toString ps ! i) = (j = i)"
      using different i below by (intro nth_eq_iff_index_eq) simp_all
    then show "toString (ps ! j) \<noteq> toString (ps ! i)"
      using i j below by simp
  qed
  show "heap (activation (Arr ps) args cenv s) (nextObject s) (toString (ps ! i)) =
        Some (args ! i)"
    using dataBindings_first [of i "length args" ps args Map.empty] eq plain i first
    by (simp add: activation_data)
next
  fix a
  assume "length ps = length args \<and> ''__proto__'' \<notin> toString ` set ps"
    and other: "a \<noteq> nextObject s"
  then have eq: "length ps = length args" and plain: "''__proto__'' \<notin> toString ` set ps"
    by simp_all
  show "heap (activation (Arr ps) args cenv s) a = heap s a"
    using other by (simp add: activation_data [OF eq plain])
qed

text \<open>The two cases of the amended C5 at \<open>(lambda (a) a)\<close> applied to no argument and at
  the parameters \<open>(a b)\<close> with the arguments 1 and 2.\<close>

theorem C5_arity_witness:
  "applyProcedure unregistered (evaluate unregistered 3)
     (Closure (Arr [Str ''a'']) (Arr [Str ''a'']) [1, 0]) [] initialState =
     Throw ArityMismatch initialState \<and>
   extendEnvironment (Arr [Str ''a'', Str ''b'']) [Data (Number 1), Data (Number 2)]
     (Some [1, 0]) initialState =
     Return [nextObject initialState, 1, 0]
       (activation (Arr [Str ''a'', Str ''b'']) [Data (Number 1), Data (Number 2)] [1, 0]
          initialState) \<and>
   heap (activation (Arr [Str ''a'', Str ''b'']) [Data (Number 1), Data (Number 2)] [1, 0]
          initialState)
     (nextObject initialState) ''a'' = Some (Data (Number 1)) \<and>
   heap (activation (Arr [Str ''a'', Str ''b'']) [Data (Number 1), Data (Number 2)] [1, 0]
          initialState)
     (nextObject initialState) ''b'' = Some (Data (Number 2))"
proof -
  have different: "length [Str ''a''] \<noteq> length ([] :: val list)" by simp
  have equal: "length [Str ''a'', Str ''b''] = length [Data (Number 1), Data (Number 2)] \<and>
      ''__proto__'' \<notin> toString ` set [Str ''a'', Str ''b'']" by simp
  note one = C5_arity_of_compound_procedures
    [of "[Str ''a'']" "[]" unregistered "evaluate unregistered 3" "Arr [Str ''a'']" "[1, 0]" initialState]
  note two = C5_arity_of_compound_procedures
    [of "[Str ''a'', Str ''b'']" "[Data (Number 1), Data (Number 2)]" unregistered
        "evaluate unregistered 3" "Arr [Str ''a'']" "[1, 0]" initialState]
  have a: "applyProcedure unregistered (evaluate unregistered 3)
     (Closure (Arr [Str ''a'']) (Arr [Str ''a'']) [1, 0]) [] initialState =
     Throw ArityMismatch initialState"
    using one different by blast
  have b: "extendEnvironment (Arr [Str ''a'', Str ''b'']) [Data (Number 1), Data (Number 2)]
     (Some [1, 0]) initialState =
     Return [nextObject initialState, 1, 0]
       (activation (Arr [Str ''a'', Str ''b'']) [Data (Number 1), Data (Number 2)] [1, 0]
          initialState)"
    using two equal by blast
  have all: "\<forall>i<length [Str ''a'', Str ''b''].
      (\<forall>j<i. toString ([Str ''a'', Str ''b''] ! j) \<noteq> toString ([Str ''a'', Str ''b''] ! i)) \<longrightarrow>
      heap (activation (Arr [Str ''a'', Str ''b'']) [Data (Number 1), Data (Number 2)] [1, 0]
             initialState)
        (nextObject initialState) (toString ([Str ''a'', Str ''b''] ! i)) =
      Some ([Data (Number 1), Data (Number 2)] ! i)"
    using two equal by blast
  have c: "heap (activation (Arr [Str ''a'', Str ''b'']) [Data (Number 1), Data (Number 2)] [1, 0]
             initialState)
     (nextObject initialState) ''a'' = Some (Data (Number 1))"
    using all [rule_format, of 0] by simp
  have different_names: "distinct (map toString [Str ''a'', Str ''b''])" by simp
  have each: "\<forall>i<length [Str ''a'', Str ''b''].
      heap (activation (Arr [Str ''a'', Str ''b'']) [Data (Number 1), Data (Number 2)] [1, 0]
             initialState)
        (nextObject initialState) (toString ([Str ''a'', Str ''b''] ! i)) =
      Some ([Data (Number 1), Data (Number 2)] ! i)"
    using two equal different_names by blast
  have d: "heap (activation (Arr [Str ''a'', Str ''b'']) [Data (Number 1), Data (Number 2)] [1, 0]
             initialState)
     (nextObject initialState) ''b'' = Some (Data (Number 2))"
    using each [rule_format, of 1] by simp
  show ?thesis using a b c d by simp
qed

subsection \<open>Misplaced else\<close>



lemma isCondElseClause_else [simp]: "isCondElseClause (Arr (Str ''else'' # actions)) = Inr True"
  by (simp add: isCondElseClause_def getCondPredicate_def jsIndex_def looseEq_def)




subsection \<open>If\<close>






subsection \<open>Values that are no procedure\<close>




subsection \<open>One-element sequences\<close>





subsection \<open>Names of the host object\<close>

text \<open>
  C10 (names of the host object are bound in a fresh interpreter). \<open>valueOf\<close> and
  \<open>constructor\<close> match the identifier pattern and are not among the registered
  bindings; in the initial store, for every host, looking them up returns the members of
  \<open>Object.prototype\<close>, and \<open>(set! valueOf 1)\<close> and \<open>(set! constructor 1)\<close> succeed,
  writing into \<open>Object.prototype\<close> (address 0) and not into the global frame (address
  1); a name that is bound nowhere fails with the reference error.
\<close>

theorem C10_host_members_are_bound:
  "isVariable (Str ''valueOf'') \<and> isVariable (Str ''constructor'') \<and>
   globalBindings ''valueOf'' = None \<and> globalBindings ''constructor'' = None \<and>
   (case evaluate h 1 (Str ''valueOf'') [] initialState of
      Return v s \<Rightarrow> v = Native ''Object.prototype.valueOf'' | _ \<Rightarrow> False) \<and>
   (case evaluate h 1 (Str ''constructor'') [] initialState of
      Return v s \<Rightarrow> v = Native ''Object'' | _ \<Rightarrow> False) \<and>
   (case evaluate h 2 (Arr [Str ''set!'', Str ''valueOf'', Number 1]) [] initialState of
      Return v s \<Rightarrow> v = Data (Number 1) \<and> heap s 0 ''valueOf'' = Some (Data (Number 1)) \<and>
                    heap s 1 ''valueOf'' = None
    | _ \<Rightarrow> False) \<and>
   (case evaluate h 2 (Arr [Str ''set!'', Str ''constructor'', Number 1]) [] initialState of
      Return v s \<Rightarrow> v = Data (Number 1) \<and> heap s 0 ''constructor'' = Some (Data (Number 1)) \<and>
                    heap s 1 ''constructor'' = None
    | _ \<Rightarrow> False) \<and>
   (case evaluate h 1 (Str ''neverDefined'') [] initialState of
      Throw x s \<Rightarrow> x = ReferenceError | _ \<Rightarrow> False)"
  by code_simp

text \<open>
  C4 (assignment overwrites the nearest frame that owns the name and fails with
  UnboundName when no frame owns it). In the fresh interpreter the only frame is the global
  one and it does not own \<open>toLocaleString\<close>; yet \<open>(set! toLocaleString 1)\<close> returns 1
  and overwrites the member of the host's \<open>Object.prototype\<close>, while an assignment to a
  name that is bound nowhere fails as the claim says. (\<open>setVariableValue_nearest\<close> and
  \<open>setVariableValue_unbound\<close> above are the claim for the objects of the prototype
  chain, \<open>Object.prototype\<close> included.)
\<close>

theorem C4_assignment_to_a_name_no_frame_owns:
  "heap initialState 1 ''toLocaleString'' = None \<and>
   (case evaluate (registered unregistered) 3
           (Arr [Str ''set!'', Str ''toLocaleString'', Number 1]) [] initialState of
      Return v s \<Rightarrow>
        v = Data (Number 1) \<and>
        heap s 0 ''toLocaleString'' = Some (Data (Number 1)) \<and>
        heap s 1 ''toLocaleString'' = None
    | _ \<Rightarrow> False) \<and>
   (case evaluate (registered unregistered) 3
           (Arr [Str ''set!'', Str ''neverDefined'', Number 1]) [] initialState of
      Throw x s \<Rightarrow> x = ReferenceError
    | _ \<Rightarrow> False)"
  by code_simp

subsection \<open>Definitions\<close>

text \<open>
  In lesson 7 a definition of a variable evaluates the right-hand side in the environment
  of the definition and binds the name in the first frame of that environment only; the
  definition of a function with parameters binds the closure over that environment. (The
  name is not \<open>__proto__\<close>, and the first frame is not \<open>Object.prototype\<close>.)
\<close>

lemma evaluate_definition_of_a_variable:
  assumes "isVariable (Str x)" and "x \<noteq> ''__proto__''" and "hd (orGlobal env) \<noteq> 0"
  shows "evaluate h (Suc depth) (Arr [Str ''define'', Str x, rhs]) env s =
           (case evaluate h depth rhs (orGlobal env) s of
              Return v s' \<Rightarrow>
                Return v (s'\<lparr>heap := (heap s')(hd (orGlobal env) :=
                                    (heap s' (hd (orGlobal env)))(x \<mapsto> v))\<rparr>)
            | Throw e s' \<Rightarrow> Throw e s'
            | Exhausted \<Rightarrow> Exhausted
            | Unmodelled \<Rightarrow> Unmodelled)"
proof -
  obtain a as where shape: "orGlobal env = a # as"
    using orGlobal_nonempty by (cases "orGlobal env") auto
  show ?thesis
    using assms unfolding shape [symmetric]
    by (simp add: dispatch_define evalDefinition_def getDefinitionName_def getDefinitionValue_def
        jsIndex_def defineVariable_def putProperty_def reachesAccessor_other shape
        split: outcome.splits)
qed

lemma evaluate_definition_of_a_function:
  assumes "f \<noteq> ''__proto__''"
  shows "evaluate h (Suc (Suc depth)) (Arr (Str ''define'' # Arr (Str f # p # ps) # body)) env s =
     Return (Closure (Arr (p # ps)) (Arr body) (orGlobal env))
       (s\<lparr>heap := (heap s)(hd (orGlobal env) :=
                   (heap s (hd (orGlobal env)))(f \<mapsto> Closure (Arr (p # ps)) (Arr body) (orGlobal env)))\<rparr>)"
proof -
  obtain a as where shape: "orGlobal env = a # as"
    using orGlobal_nonempty by (cases "orGlobal env") auto
  show ?thesis
    using assms
    by (simp add: dispatch_define evalDefinition_def getDefinitionName_def getDefinitionValue_def
        jsIndex_def jsSlice_def makeLambda_def dispatch_lambda defineVariable_def putProperty_def
        reachesAccessor_other isCallable_def shape)
qed

text \<open>
  C8 (a definition evaluates its right-hand side in the environment in which it appears
  and binds the name in the innermost frame). After \<open>(define (f a) (define b a) b)\<close>,
  the call \<open>(f 5)\<close> fails in lesson 5 with the reference error for \<open>a\<close>:
  \<open>evalDefinition\<close> calls \<open>evaluate(definitionValue)\<close> without the environment, so
  the right-hand side \<open>a\<close> is looked up in the global environment. Lesson 7 passes the
  environment: the same call returns 5 and binds \<open>b\<close> in the frame of the call (address
  2), not in the global frame.
\<close>

theorem C8_definition_in_a_body_of_lesson_5:
  "(case evaluate5 unregistered 5 defineF [] initialState5 of
      Return f s \<Rightarrow>
        (case evaluate5 unregistered 6 callF [] s of
           Throw x s' \<Rightarrow> x = ReferenceError
         | _ \<Rightarrow> False)
    | _ \<Rightarrow> False) \<and>
   (case evaluate unregistered 5 defineF [] initialState of
      Return f s \<Rightarrow>
        (case evaluate unregistered 6 callF [] s of
           Return v s' \<Rightarrow> v = Data (Number 5) \<and> heap s' 2 ''b'' = Some (Data (Number 5)) \<and>
                         heap s' 1 ''b'' = None
         | _ \<Rightarrow> False)
    | _ \<Rightarrow> False)"
  by code_simp

subsection \<open>Closures\<close>

lemma activation_own:
  assumes "length ps = length args" and "''__proto__'' \<notin> toString ` set ps"
  shows "(heap (activation (Arr ps) args cenv s) (nextObject s) k = None) =
         (k \<notin> toString ` set ps)"
proof -
  have "dom (heap (activation (Arr ps) args cenv s) (nextObject s)) = toString ` set ps"
    using assms dom_dataBindings [of "length args" ps args Map.empty]
    by (simp add: activation_data)
  then show ?thesis by (metis domIff)
qed

lemma lookupVariableValue_through_frame:
  assumes own: "heap s a k = None"
    and "k \<noteq> ''__proto__''"
    and "cenv \<noteq> []"
  shows "lookupVariableValue (Str k) (a # cenv) s = lookupVariableValue (Str k) cenv s"
proof -
  obtain c cs where shape: "cenv = c # cs" using assms(3) by (cases cenv) auto
  have same: "hasProperty (heap s) k (a # cenv) = hasProperty (heap s) k cenv"
    using own assms(2) by (simp add: protoAccessor_def)
  have data: "getProperty (heap s) k (a # cenv) = getProperty (heap s) k cenv"
    using own by simp
  have bound: "hasProperty (heap s) k cenv = (getProperty (heap s) k cenv \<noteq> None)"
    using assms(2) by (simp add: hasProperty_getProperty no_accessor_of_other_names)
  show ?thesis
  proof (cases "getProperty (heap s) k cenv")
    case None
    then show ?thesis
      using same bound unfolding shape by (simp add: lookupVariableValue_def)
  next
    case (Some v)
    then show ?thesis
      using same data bound unfolding shape by (simp add: lookupVariableValue_def)
  qed
qed

lemma setVariableValue_through_frame:
  assumes own: "heap s a k = None"
    and inherited: "heap s a ''hasOwnProperty'' = None"
    and host: "hostHasOwnProperty s cenv"
    and "cenv \<noteq> []"
    and "k \<noteq> ''__proto__''"
  shows "setVariableValue h (Str k) v (a # cenv) s = setVariableValue h (Str k) v cenv s"
proof -
  obtain c cs where shape: "cenv = c # cs" using assms(4) by (cases cenv) auto
  have "hostHasOwnProperty s (a # cenv)"
    using inherited host by (simp add: hostHasOwnProperty_def)
  then have "callHasOwnProperty h (Str k) (a # cenv) s = Return False s"
    using own assms(5) by (simp add: callHasOwnProperty_host protoAccessor_def)
  then have "findFrame h (Str k) (a # cenv) s = findFrame h (Str k) cenv s"
    by simp
  then show ?thesis
    using own assms(5) unfolding shape by (simp add: setVariableValue_def protoAccessor_def)
qed

text \<open>
  C2 (the frame of a call is parented at the closure environment; a returned procedure
  still reads and writes the variables of the call that created it). In the fresh
  interpreter \<open>(+ 1 2)\<close> is 3 in the global environment, the environment that
  \<open>(lambda (__proto__) (+ 1 2))\<close> saves. Called with \<open>null\<close>, the body fails with the
  reference error for \<open>+\<close>: the loop of \<open>extendEnvironment\<close> assigns \<open>null\<close> to
  \<open>__proto__\<close> on the new frame, which runs the accessor that the frame inherits from
  the host's \<open>Object.prototype\<close> through the global environment \<open>{}\<close>, and the frame
  loses its parent: it is the whole environment of the body, and the saved environment,
  where \<open>+\<close> is bound, is out of reach.
\<close>

theorem C2_frame_of_a_call_with_the_parameter_proto:
  "(case evaluate (registered unregistered) 4 (Arr [Str ''+'', Number 1, Number 2])
          TheGlobalEnvironment initialState of
      Return v s \<Rightarrow> v = Data (Number 3)
    | _ \<Rightarrow> False) \<and>
   (case evaluate (registered unregistered) 5
          (Arr [Arr [Str ''lambda'', Arr [Str ''__proto__''], Arr [Str ''+'', Number 1, Number 2]],
                Str ''null''])
          [] initialState of
      Throw x s \<Rightarrow> x = ReferenceError
    | _ \<Rightarrow> False) \<and>
   (case extendEnvironment (Arr [Str ''__proto__'']) [Data Null] (Some TheGlobalEnvironment)
          initialState of
      Return environment s \<Rightarrow>
        environment = [2] \<and> environment \<noteq> 2 # TheGlobalEnvironment \<and>
        hasProperty (heap s) ''+'' TheGlobalEnvironment \<and>
        \<not> hasProperty (heap s) ''+'' environment
    | _ \<Rightarrow> False)"
  by code_simp

text \<open>
  The environment objects inherit \<open>hasOwnProperty\<close> from the host in the same way, and
  \<open>setVariableValue\<close> calls it as a method of the environment: a frame with a variable
  of that name breaks the assignments made above it. After
  \<open>(define (make v hasOwnProperty) (lambda (new) (set! v new)))\<close> the call
  \<open>((make 1 2) 3)\<close> fails with a type error.
\<close>

lemma assignment_above_a_variable_named_hasOwnProperty:
  "(case evaluate (registered unregistered) 6
          (Arr [Str ''begin'',
                Arr [Str ''define'', Arr [Str ''make'', Str ''v'', Str ''hasOwnProperty''],
                     Arr [Str ''lambda'', Arr [Str ''new''],
                          Arr [Str ''set!'', Str ''v'', Str ''new'']]],
                Arr [Arr [Str ''make'', Number 1, Number 2], Number 3]])
          [] initialState of
      Throw x s \<Rightarrow> x = TypeError
    | _ \<Rightarrow> False)"
  by code_simp

text \<open>
  Every other call does what the claim says. An application in the environment \<open>env\<close>
  whose operator evaluates to the procedure that \<open>makeFunction\<close> built with the
  environment \<open>cenv\<close>, with as many arguments as parameters, none of the parameters
  named \<open>__proto__\<close>: the body is evaluated in the new frame followed by \<open>cenv\<close>;
  \<open>env\<close> does not occur in it. In that environment a name \<open>x\<close> that is not a
  parameter (and not \<open>__proto__\<close>, which names the prototype link of the environment it
  is read in) is looked up and assigned exactly as in \<open>cenv\<close>, the assignment while
  \<open>hasOwnProperty\<close> is the host's function in \<open>cenv\<close> and no parameter has that
  name; this holds whether or not the call that created the frames of \<open>cenv\<close> has
  returned: the frames live in the store. A \<open>lambda\<close> evaluated in the body saves that
  environment in turn.
\<close>

lemma frame_of_a_call_extends_the_saved_environment:
  assumes "classifiedAsApplication (Arr (f # operands))"
    and "evaluate h depth f (orGlobal env) s = Return (Closure (Arr ps) body cenv) s1"
    and "getArgumentValues (evaluate h depth) (Arr operands) (orGlobal env) s1 = Return args s2"
    and "length ps = length args"
    and "cenv \<noteq> []"
    and "x \<notin> toString ` set ps"
    and "''hasOwnProperty'' \<notin> toString ` set ps"
    and "hostHasOwnProperty (activation (Arr ps) args cenv s2) cenv"
    and "''__proto__'' \<notin> toString ` set ps"
    and "x \<noteq> ''__proto__''"
  shows "evaluate h (Suc depth) (Arr (f # operands)) env s =
           evalSequence (evaluate h depth) body (nextObject s2 # cenv)
             (activation (Arr ps) args cenv s2) \<and>
         lookupVariableValue (Str x) (nextObject s2 # cenv) (activation (Arr ps) args cenv s2) =
           lookupVariableValue (Str x) cenv (activation (Arr ps) args cenv s2) \<and>
         setVariableValue h (Str x) v (nextObject s2 # cenv) (activation (Arr ps) args cenv s2) =
           setVariableValue h (Str x) v cenv (activation (Arr ps) args cenv s2) \<and>
         evaluate h (Suc depth) (Arr (Str ''lambda'' # parameters # expressions)) (nextObject s2 # cenv) s3 =
           Return (Closure parameters (Arr expressions) (nextObject s2 # cenv)) s3"
proof (intro conjI)
  have "evaluate h (Suc depth) (Arr (f # operands)) env s =
        evalApplication h (evaluate h depth) (Arr (f # operands)) (orGlobal env) s"
    using assms(1) by (simp add: dispatch_application)
  also have "\<dots> = applyProcedure h (evaluate h depth) (Closure (Arr ps) body cenv) args s2"
    using assms(2,3)
    by (simp add: evalApplication_def getOperator_def getArguments_def jsIndex_def jsSlice_def)
  also have "\<dots> = evalSequence (evaluate h depth) body (nextObject s2 # cenv)
                     (activation (Arr ps) args cenv s2)"
    using assms(4,9) by (simp add: applyProcedure_Closure extendEnvironment_equal)
  finally show "evaluate h (Suc depth) (Arr (f # operands)) env s =
      evalSequence (evaluate h depth) body (nextObject s2 # cenv)
        (activation (Arr ps) args cenv s2)" .
next
  have own: "heap (activation (Arr ps) args cenv s2) (nextObject s2) x = None"
    using assms(4,6,9) by (simp add: activation_own)
  show "lookupVariableValue (Str x) (nextObject s2 # cenv) (activation (Arr ps) args cenv s2) =
        lookupVariableValue (Str x) cenv (activation (Arr ps) args cenv s2)"
    using own assms(10,5) by (rule lookupVariableValue_through_frame)
next
  have own: "heap (activation (Arr ps) args cenv s2) (nextObject s2) x = None"
    using assms(4,6,9) by (simp add: activation_own)
  have inherited:
    "heap (activation (Arr ps) args cenv s2) (nextObject s2) ''hasOwnProperty'' = None"
    using assms(4,7,9) by (simp add: activation_own)
  show "setVariableValue h (Str x) v (nextObject s2 # cenv) (activation (Arr ps) args cenv s2) =
        setVariableValue h (Str x) v cenv (activation (Arr ps) args cenv s2)"
    using own inherited assms(8,5,10) by (rule setVariableValue_through_frame)
next
  show "evaluate h (Suc depth) (Arr (Str ''lambda'' # parameters # expressions)) (nextObject s2 # cenv) s3 =
           Return (Closure parameters (Arr expressions) (nextObject s2 # cenv)) s3"
    by (simp add: dispatch_lambda orGlobal_def)
qed

lemma cellState_facts:
  "nextObject cellState = 3"
  "getProperty (heap cellState) ''c'' (orGlobal []) =
     Some (Closure (Arr [Str ''new'']) cellBody [2, 1, 0])"
  "hostHasOwnProperty (activation (Arr [Str ''new'']) [Data (Number 2)] [2, 1, 0] cellState)
     [2, 1, 0]"
  "heap cellState 2 ''v'' = Some (Data (Number 1))"
  "heap cellState 3 ''v'' = None"
  by code_simp+

text \<open>
  The call \<open>(c 2)\<close> in the store after \<open>(define c (make-cell 1))\<close>, evaluated
  in the global environment \<open>[1, 0]\<close>: the body runs in \<open>[3, 2, 1, 0]\<close>, on top of the
  frame 2 of the call of \<open>make-cell\<close> that has returned, and returns the former value 1
  of \<open>v\<close>, leaving 2 in it; the call \<open>(c 3)\<close> after it returns 2 and leaves 3.
\<close>

lemma frame_of_a_call_of_a_returned_procedure:
  "evaluate unregistered (Suc (Suc (Suc (Suc 0)))) (Arr [Str ''c'', Number 2]) [] cellState =
     evalSequence (evaluate unregistered (Suc (Suc (Suc 0)))) cellBody [3, 2, 1, 0]
       (activation (Arr [Str ''new'']) [Data (Number 2)] [2, 1, 0] cellState) \<and>
   (case evalSequence (evaluate unregistered (Suc (Suc (Suc 0)))) cellBody [3, 2, 1, 0]
           (activation (Arr [Str ''new'']) [Data (Number 2)] [2, 1, 0] cellState) of
      Return old s \<Rightarrow> old = Data (Number 1) \<and> heap s 2 ''v'' = Some (Data (Number 2))
    | _ \<Rightarrow> False) \<and>
   lookupVariableValue (Str ''v'') [3, 2, 1, 0]
       (activation (Arr [Str ''new'']) [Data (Number 2)] [2, 1, 0] cellState) =
     lookupVariableValue (Str ''v'') [2, 1, 0]
       (activation (Arr [Str ''new'']) [Data (Number 2)] [2, 1, 0] cellState) \<and>
   (case lookupVariableValue (Str ''v'') [3, 2, 1, 0]
           (activation (Arr [Str ''new'']) [Data (Number 2)] [2, 1, 0] cellState) of
      Return value s \<Rightarrow> value = Data (Number 1)
    | _ \<Rightarrow> False) \<and>
   setVariableValue unregistered (Str ''v'') (Data (Number 2)) [3, 2, 1, 0]
       (activation (Arr [Str ''new'']) [Data (Number 2)] [2, 1, 0] cellState) =
     setVariableValue unregistered (Str ''v'') (Data (Number 2)) [2, 1, 0]
       (activation (Arr [Str ''new'']) [Data (Number 2)] [2, 1, 0] cellState) \<and>
   (case setVariableValue unregistered (Str ''v'') (Data (Number 2)) [3, 2, 1, 0]
           (activation (Arr [Str ''new'']) [Data (Number 2)] [2, 1, 0] cellState) of
      Return value s \<Rightarrow> heap s 2 ''v'' = Some (Data (Number 2)) \<and> heap s 3 ''v'' = None
    | _ \<Rightarrow> False) \<and>
   (case evaluate unregistered 4 (Arr [Str ''c'', Number 2]) [] cellState of
      Return old s \<Rightarrow>
        old = Data (Number 1) \<and> heap s 2 ''v'' = Some (Data (Number 2)) \<and>
        (case evaluate unregistered 4 (Arr [Str ''c'', Number 3]) [] s of
           Return old' s' \<Rightarrow> old' = Data (Number 2) \<and> heap s' 2 ''v'' = Some (Data (Number 3))
         | _ \<Rightarrow> False)
    | _ \<Rightarrow> False)"
proof -
  have a: "classifiedAsApplication (Arr (Str ''c'' # [Number 2]))"
    by code_simp
  have simple: "isSelfEvaluating (Str ''c'') = False" "isVariable (Str ''c'')"
    by code_simp+
  have bound: "lookupVariableValue (Str ''c'') (orGlobal []) cellState =
      Return (Closure (Arr [Str ''new'']) cellBody [2, 1, 0]) cellState"
    using cellState_facts(2) by (intro lookupVariableValue_bound) simp_all
  have b: "evaluate unregistered (Suc (Suc (Suc 0))) (Str ''c'') (orGlobal []) cellState =
           Return (Closure (Arr [Str ''new'']) cellBody [2, 1, 0]) cellState"
    using simple bound by (simp add: dispatch_variable)
  have c: "getArgumentValues (evaluate unregistered (Suc (Suc (Suc 0)))) (Arr [Number 2]) (orGlobal []) cellState =
           Return [Data (Number 2)] cellState"
    by (simp add: getArgumentValues_def dispatch_number)
  have d: "length [Str ''new''] = length [Data (Number 2)]" by simp
  have e: "[2, 1, 0] \<noteq> ([] :: nat list)" by simp
  have f: "''v'' \<notin> toString ` set [Str ''new'']" by simp
  have g: "''hasOwnProperty'' \<notin> toString ` set [Str ''new'']" by simp
  have i: "''__proto__'' \<notin> toString ` set [Str ''new'']" by simp
  have j: "''v'' \<noteq> ''__proto__''" by simp
  note main = frame_of_a_call_extends_the_saved_environment
    [OF a b c d e f g cellState_facts(3) i j, of "Data (Number 2)"]
  have body: "(case evalSequence (evaluate unregistered (Suc (Suc (Suc 0)))) cellBody [3, 2, 1, 0]
           (activation (Arr [Str ''new'']) [Data (Number 2)] [2, 1, 0] cellState) of
      Return old s \<Rightarrow> old = Data (Number 1) \<and> heap s 2 ''v'' = Some (Data (Number 2))
    | _ \<Rightarrow> False)"
    by code_simp
  have read: "(case lookupVariableValue (Str ''v'') [3, 2, 1, 0]
           (activation (Arr [Str ''new'']) [Data (Number 2)] [2, 1, 0] cellState) of
      Return value s \<Rightarrow> value = Data (Number 1)
    | _ \<Rightarrow> False)"
    by code_simp
  have written: "(case setVariableValue unregistered (Str ''v'') (Data (Number 2)) [3, 2, 1, 0]
           (activation (Arr [Str ''new'']) [Data (Number 2)] [2, 1, 0] cellState) of
      Return value s \<Rightarrow> heap s 2 ''v'' = Some (Data (Number 2)) \<and> heap s 3 ''v'' = None
    | _ \<Rightarrow> False)"
    by code_simp
  have run: "(case evaluate unregistered 4 (Arr [Str ''c'', Number 2]) [] cellState of
      Return old s \<Rightarrow>
        old = Data (Number 1) \<and> heap s 2 ''v'' = Some (Data (Number 2)) \<and>
        (case evaluate unregistered 4 (Arr [Str ''c'', Number 3]) [] s of
           Return old' s' \<Rightarrow> old' = Data (Number 2) \<and> heap s' 2 ''v'' = Some (Data (Number 3))
         | _ \<Rightarrow> False)
    | _ \<Rightarrow> False)"
    by code_simp
  show ?thesis
    using main body read written run by (simp add: cellState_facts(1))
qed

end
